theory Spec2Isabelle
  imports Main "HOL-Library.Word"
begin

unbundle bit_operations_syntax

section \<open>Machine types\<close>

type_synonym u16 = "16 word"
type_synonym u32 = "32 word"
type_synonym u64 = "64 word"

text \<open>A C \<open>int\<close> is kept as its 32-bit two's complement pattern; \<open>scast\<close> is the
  sign-extending conversion to \<open>u64\<close>, \<open>ucast\<close> the truncation from \<open>unsigned long\<close>.\<close>

type_synonym s32 = "32 word"

section \<open>Declarations the proxy includes\<close>

text \<open>
  The proxy (the FF-A part of \<^verbatim>\<open>include/trace/hooks/cgroup.h\<close>) uses function
  identifiers, return codes, SMCCC field macros, page constants, structure sizes and
  address-translation helpers that are declared in headers which are not among the
  sources (\<^verbatim>\<open>linux/arm_ffa.h\<close>, \<^verbatim>\<open>linux/arm-smccc.h\<close>, \<^verbatim>\<open>asm/kvm_pkvm.h\<close>,
  \<^verbatim>\<open>nvhe/memory.h\<close>). They are taken as parameters: every function below receives the
  record \<open>K\<close> of these declarations. \<open>ffa_buffers_tx\<close> and \<open>ffa_buffers_rx\<close> are the
  addresses of the hypervisor's own mailboxes (\<^verbatim>\<open>ffa_buffers.tx\<close>, \<^verbatim>\<open>ffa_buffers.rx\<close>),
  fixed by \<^verbatim>\<open>hyp_ffa_init\<close>. The function identifiers and the sizes are \<open>u64\<close> values,
  the type in which the source compares them; \<open>FFA_PAGE_SIZE\<close> is an \<open>int\<close> constant, so
  that its product with a \<open>u32\<close> page count is a \<open>u32\<close>. \<open>PAGE_SIZE\<close> and \<open>FFA_PAGE_SIZE\<close>
  are divisors in the source and not 0 in any build; division by 0 yields 0 here.
\<close>

record ffa_consts =
  FFA_ERROR :: u64
  FFA_SUCCESS :: u64
  FFA_FEATURES :: u64
  FFA_RXTX_MAP :: u64
  FFA_FN64_RXTX_MAP :: u64
  FFA_RXTX_UNMAP :: u64
  FFA_MSG_POLL :: u64
  FFA_MSG_WAIT :: u64
  FFA_MSG_SEND :: u64
  FFA_MSG_SEND_DIRECT_REQ :: u64
  FFA_MSG_SEND_DIRECT_RESP :: u64
  FFA_MEM_DONATE :: u64
  FFA_FN64_MEM_DONATE :: u64
  FFA_MEM_LEND :: u64
  FFA_FN64_MEM_LEND :: u64
  FFA_MEM_SHARE :: u64
  FFA_FN64_MEM_SHARE :: u64
  FFA_MEM_RETRIEVE_REQ :: u64
  FFA_FN64_MEM_RETRIEVE_REQ :: u64
  FFA_MEM_RETRIEVE_RESP :: u64
  FFA_MEM_RELINQUISH :: u64
  FFA_MEM_RECLAIM :: u64
  FFA_MEM_OP_PAUSE :: u64
  FFA_MEM_OP_RESUME :: u64
  FFA_MEM_FRAG_RX :: u64
  FFA_MEM_FRAG_TX :: u64
  FFA_RET_SUCCESS :: s32
  FFA_RET_NOT_SUPPORTED :: s32
  FFA_RET_INVALID_PARAMETERS :: s32
  FFA_RET_DENIED :: s32
  FFA_RET_ABORTED :: s32
  ARM_SMCCC_IS_FAST_CALL :: "u64 \<Rightarrow> bool"
  ARM_SMCCC_OWNER_NUM :: "u64 \<Rightarrow> u64"
  ARM_SMCCC_FUNC_NUM :: "u64 \<Rightarrow> u64"
  ARM_SMCCC_OWNER_STANDARD :: u64
  FFA_MIN_FUNC_NUM :: u64
  FFA_MAX_FUNC_NUM :: u64
  PAGE_SIZE :: u64
  FFA_PAGE_SIZE :: u32
  KVM_FFA_MBOX_NR_PAGES :: u64
  PAGE_ALIGNED :: "u64 \<Rightarrow> bool"
  hyp_phys_to_pfn :: "u64 \<Rightarrow> u64"
  hyp_phys_to_virt :: "u64 \<Rightarrow> u64"
  hyp_virt_to_pfn :: "u64 \<Rightarrow> u64"
  hyp_virt_to_phys :: "u64 \<Rightarrow> u64"
  ffa_buffers_tx :: u64
  ffa_buffers_rx :: u64
  sizeof_ffa_mem_region :: u64
  sizeof_ffa_mem_region_attributes :: u64
  sizeof_ffa_composite_mem_region :: u64
  sizeof_ffa_mem_region_addr_range :: u64

text \<open>\<^verbatim>\<open>#define HOST_FFA_ID 0\<close> is in the proxy itself; it is compared with 16-, 32- and
  64-bit values.\<close>

definition HOST_FFA_ID :: "'a::len word" where
  "HOST_FFA_ID = 0"

section \<open>Registers and results\<close>

record arm_smccc_res =
  a0 :: u64
  a1 :: u64
  a2 :: u64
  a3 :: u64

type_synonym kvm_cpu_context = "nat \<Rightarrow> u64"

definition cpu_reg :: "kvm_cpu_context \<Rightarrow> nat \<Rightarrow> u64" where
  "cpu_reg ctxt r = ctxt r"

section \<open>Memory region descriptors\<close>

text \<open>
  A mailbox holding a transfer descriptor is read through typed views: the fields the
  proxy reads from \<^verbatim>\<open>struct ffa_mem_region\<close> (\<open>sender_id\<close>, \<open>ep_count\<close> and
  \<^verbatim>\<open>ep_mem_access[0].composite_off\<close>), and for every byte offset the composite region
  \<^verbatim>\<open>(void *)buf + offset\<close> seen there, with its flexible array \<open>constituents\<close> indexed
  from 0. The byte layout itself is not modelled; the lengths the proxy compares are.
\<close>

record ffa_mem_region_addr_range =
  address :: u64
  pg_cnt :: u32

record ffa_composite_mem_region =
  addr_range_cnt :: u32
  constituents :: "nat \<Rightarrow> ffa_mem_region_addr_range"

record ffa_mem_region =
  sender_id :: u16
  ep_count :: u32
  ep_mem_access0_composite_off :: u32
  composite_at :: "u32 \<Rightarrow> ffa_composite_mem_region"

section \<open>State of the hypervisor and of its collaborators\<close>

text \<open>
  The Ownership Record of the spec: one state for each page frame. The first three states
  are the ones the spec names; \<open>GRANTED_PRIVILEGED\<close> is a page whose access was granted to
  the privileged domain (\<open>grant_to_privileged\<close>).
\<close>

datatype page_state = HOST_ONLY | SHARED_DOWNSTREAM | LENT_DOWNSTREAM | GRANTED_PRIVILEGED

datatype outcome = Ok | Fail

text \<open>
  Every call that leaves the proxy is recorded, in order: a call to the downstream
  authority (function identifier and the three argument registers the proxy sets, the
  other four are always 0), a call to the ownership table, a warning.
\<close>

datatype event =
    SMC u64 u64 u64 u64
  | HOST_SHARE_FFA u64 u64
  | HOST_UNSHARE_FFA u64 u64
  | HOST_SHARE_HYP u64
  | HOST_UNSHARE_HYP u64
  | WARN

text \<open>
  The downstream authority answers each call with result registers and leaves some
  content in the mailbox it writes (\<^verbatim>\<open>ffa_buffers.rx\<close>). Its behaviour is not
  constrained: \<open>spmd s n\<close> is the answer to the \<open>n\<close>-th call from now.
\<close>

record spmd_reply =
  reply_res :: arm_smccc_res
  reply_rx :: ffa_mem_region

text \<open>
  \<open>host_kvm_ffa_tx\<close> and \<open>host_kvm_ffa_rx\<close> are the pointers \<^verbatim>\<open>host_kvm.ffa.tx\<close> and
  \<^verbatim>\<open>host_kvm.ffa.rx\<close> (0 is \<^verbatim>\<open>NULL\<close>); \<open>host_tx_mbox\<close> is what the host has written in
  its TX mailbox; \<open>ffa_buffers_rx_mbox\<close> is the content of \<^verbatim>\<open>ffa_buffers.rx\<close>. The
  spin lock \<^verbatim>\<open>host_kvm.ffa.lock\<close> is taken and released within each call and is not
  part of the sequential state.
\<close>

record hyp_state =
  host_kvm_ffa_tx :: u64
  host_kvm_ffa_rx :: u64
  host_tx_mbox :: ffa_mem_region
  ffa_buffers_rx_mbox :: ffa_mem_region
  ownership :: "nat \<Rightarrow> page_state"
  spmd :: "nat \<Rightarrow> spmd_reply"
  trace :: "event list"

definition arm_smccc_1_1_smc ::
  "u64 \<Rightarrow> u64 \<Rightarrow> u64 \<Rightarrow> u64 \<Rightarrow> hyp_state \<Rightarrow> arm_smccc_res \<times> hyp_state" where
  "arm_smccc_1_1_smc func_id x1 x2 x3 s =
     (reply_res (spmd s 0),
      s\<lparr>ffa_buffers_rx_mbox := reply_rx (spmd s 0),
        spmd := (\<lambda>n. spmd s (Suc n)),
        trace := trace s @ [SMC func_id x1 x2 x3]\<rparr>)"

subsection \<open>Ownership table\<close>

definition pfn_range :: "u64 \<Rightarrow> u64 \<Rightarrow> nat set" where
  "pfn_range pfn npages = {unat pfn ..< unat pfn + unat npages}"

definition mark :: "nat set \<Rightarrow> page_state \<Rightarrow> (nat \<Rightarrow> page_state) \<Rightarrow> nat \<Rightarrow> page_state" where
  "mark A st own = (\<lambda>p. if p \<in> A then st else own p)"

text \<open>
  Modelled from the spec: \<^verbatim>\<open>__pkvm_host_share_ffa\<close> and \<^verbatim>\<open>__pkvm_host_unshare_ffa\<close>
  (\<^verbatim>\<open>nvhe/mem_protect.h\<close>) are not among the sources. The spec gives
  \<open>share_page(pfn, count) -> ok|fail\<close> and \<open>unshare_page(pfn, count) -> ok|fail\<close>,
  individually reversible, on a record that tracks for each page whether it is
  host-owned-only or shared with the downstream authority: sharing marks the pages of a
  host-owned-only range shared, unsharing marks the pages of a shared range
  host-owned-only, and a call that fails changes nothing.
\<close>

definition pkvm_host_share_ffa :: "u64 \<Rightarrow> u64 \<Rightarrow> hyp_state \<Rightarrow> outcome \<times> hyp_state" where
  "pkvm_host_share_ffa pfn npages s =
     (if \<forall>p \<in> pfn_range pfn npages. ownership s p = HOST_ONLY
      then (Ok, s\<lparr>ownership := mark (pfn_range pfn npages) SHARED_DOWNSTREAM (ownership s),
                  trace := trace s @ [HOST_SHARE_FFA pfn npages]\<rparr>)
      else (Fail, s\<lparr>trace := trace s @ [HOST_SHARE_FFA pfn npages]\<rparr>))"

definition pkvm_host_unshare_ffa :: "u64 \<Rightarrow> u64 \<Rightarrow> hyp_state \<Rightarrow> outcome \<times> hyp_state" where
  "pkvm_host_unshare_ffa pfn npages s =
     (if \<forall>p \<in> pfn_range pfn npages. ownership s p = SHARED_DOWNSTREAM
      then (Ok, s\<lparr>ownership := mark (pfn_range pfn npages) HOST_ONLY (ownership s),
                  trace := trace s @ [HOST_UNSHARE_FFA pfn npages]\<rparr>)
      else (Fail, s\<lparr>trace := trace s @ [HOST_UNSHARE_FFA pfn npages]\<rparr>))"

text \<open>
  Modelled from the spec: \<^verbatim>\<open>__pkvm_host_share_hyp\<close> and \<^verbatim>\<open>__pkvm_host_unshare_hyp\<close>
  are not among the sources. The spec gives \<open>grant_to_privileged(pfn) -> ok|fail\<close> and
  \<open>revoke_from_privileged(pfn) -> ok|fail\<close>, individually reversible.
\<close>

definition pkvm_host_share_hyp :: "u64 \<Rightarrow> hyp_state \<Rightarrow> outcome \<times> hyp_state" where
  "pkvm_host_share_hyp pfn s =
     (if ownership s (unat pfn) = HOST_ONLY
      then (Ok, s\<lparr>ownership := mark {unat pfn} GRANTED_PRIVILEGED (ownership s),
                  trace := trace s @ [HOST_SHARE_HYP pfn]\<rparr>)
      else (Fail, s\<lparr>trace := trace s @ [HOST_SHARE_HYP pfn]\<rparr>))"

definition pkvm_host_unshare_hyp :: "u64 \<Rightarrow> hyp_state \<Rightarrow> outcome \<times> hyp_state" where
  "pkvm_host_unshare_hyp pfn s =
     (if ownership s (unat pfn) = GRANTED_PRIVILEGED
      then (Ok, s\<lparr>ownership := mark {unat pfn} HOST_ONLY (ownership s),
                  trace := trace s @ [HOST_UNSHARE_HYP pfn]\<rparr>)
      else (Fail, s\<lparr>trace := trace s @ [HOST_UNSHARE_HYP pfn]\<rparr>))"

text \<open>
  Modelled from the spec: \<^verbatim>\<open>WARN_ON\<close> (\<^verbatim>\<open>asm-generic/bug.h\<close>) is not among the sources.
  The spec has a warning reported (logged) and the call going on.
\<close>

definition WARN_ON :: "bool \<Rightarrow> hyp_state \<Rightarrow> hyp_state" where
  "WARN_ON c s = (if c then s\<lparr>trace := trace s @ [WARN]\<rparr> else s)"

section \<open>The proxy\<close>

definition ffa_to_smccc_error :: "ffa_consts \<Rightarrow> u64 \<Rightarrow> arm_smccc_res" where
  "ffa_to_smccc_error K ffa_errno = \<lparr>a0 = FFA_ERROR K, a1 = 0, a2 = ffa_errno, a3 = 0\<rparr>"

definition ffa_to_smccc_res_prop :: "ffa_consts \<Rightarrow> s32 \<Rightarrow> u64 \<Rightarrow> arm_smccc_res" where
  "ffa_to_smccc_res_prop K ret prop =
     (if ret = FFA_RET_SUCCESS K
      then \<lparr>a0 = FFA_SUCCESS K, a1 = 0, a2 = prop, a3 = 0\<rparr>
      else ffa_to_smccc_error K (scast ret))"

definition ffa_to_smccc_res :: "ffa_consts \<Rightarrow> s32 \<Rightarrow> arm_smccc_res" where
  "ffa_to_smccc_res K ret = ffa_to_smccc_res_prop K ret 0"

definition ffa_set_retval :: "kvm_cpu_context \<Rightarrow> arm_smccc_res \<Rightarrow> kvm_cpu_context" where
  "ffa_set_retval ctxt res = ctxt(0 := a0 res, 1 := a1 res, 2 := a2 res, 3 := a3 res)"

definition is_ffa_call :: "ffa_consts \<Rightarrow> u64 \<Rightarrow> bool" where
  "is_ffa_call K func_id \<longleftrightarrow>
     ARM_SMCCC_IS_FAST_CALL K func_id \<and>
     ARM_SMCCC_OWNER_NUM K func_id = ARM_SMCCC_OWNER_STANDARD K \<and>
     ARM_SMCCC_FUNC_NUM K func_id \<ge> FFA_MIN_FUNC_NUM K \<and>
     ARM_SMCCC_FUNC_NUM K func_id \<le> FFA_MAX_FUNC_NUM K"

definition spmd_map_ffa_buffers :: "ffa_consts \<Rightarrow> u64 \<Rightarrow> hyp_state \<Rightarrow> s32 \<times> hyp_state" where
  "spmd_map_ffa_buffers K ffa_page_count s =
     (case arm_smccc_1_1_smc (FFA_FN64_RXTX_MAP K)
             (hyp_virt_to_phys K (ffa_buffers_tx K))
             (hyp_virt_to_phys K (ffa_buffers_rx K))
             ffa_page_count s of
        (res, s') \<Rightarrow>
          (if a0 res = FFA_SUCCESS K then FFA_RET_SUCCESS K else ucast (a2 res), s'))"

definition spmd_unmap_ffa_buffers :: "ffa_consts \<Rightarrow> hyp_state \<Rightarrow> s32 \<times> hyp_state" where
  "spmd_unmap_ffa_buffers K s =
     (case arm_smccc_1_1_smc (FFA_RXTX_UNMAP K) HOST_FFA_ID 0 0 s of
        (res, s') \<Rightarrow>
          (if a0 res = FFA_SUCCESS K then FFA_RET_SUCCESS K else ucast (a2 res), s'))"

definition spmd_mem_xfer ::
  "u64 \<Rightarrow> u32 \<Rightarrow> u32 \<Rightarrow> hyp_state \<Rightarrow> arm_smccc_res \<times> hyp_state" where
  "spmd_mem_xfer func_id len fraglen s =
     arm_smccc_1_1_smc func_id (ucast len) (ucast fraglen) 0 s"

definition spmd_mem_reclaim ::
  "ffa_consts \<Rightarrow> u32 \<Rightarrow> u32 \<Rightarrow> u32 \<Rightarrow> hyp_state \<Rightarrow> arm_smccc_res \<times> hyp_state" where
  "spmd_mem_reclaim K handle_lo handle_hi flags s =
     arm_smccc_1_1_smc (FFA_MEM_RECLAIM K) (ucast handle_lo) (ucast handle_hi) (ucast flags) s"

definition spmd_retrieve_req :: "ffa_consts \<Rightarrow> u32 \<Rightarrow> hyp_state \<Rightarrow> arm_smccc_res \<times> hyp_state" where
  "spmd_retrieve_req K len s =
     arm_smccc_1_1_smc (FFA_FN64_MEM_RETRIEVE_REQ K) (ucast len) (ucast len) 0 s"

subsection \<open>Buffer mapping\<close>

text \<open>The \<^verbatim>\<open>goto\<close> labels of the source are the branches below: \<open>err_unshare_tx\<close>
  revokes the grant on the TX page, \<open>err_unmap\<close> asks the downstream authority to unmap,
  and every path ends in \<open>ffa_to_smccc_res\<close>.\<close>

definition do_ffa_rxtx_map ::
  "ffa_consts \<Rightarrow> kvm_cpu_context \<Rightarrow> hyp_state \<Rightarrow> arm_smccc_res \<times> hyp_state" where
  "do_ffa_rxtx_map K ctxt s =
     (let tx = cpu_reg ctxt 1;
          rx = cpu_reg ctxt 2;
          npages = (ucast (cpu_reg ctxt 3) :: u32)
      in
      if (ucast npages :: u64) \<noteq>
           (KVM_FFA_MBOX_NR_PAGES K * PAGE_SIZE K) div ucast (FFA_PAGE_SIZE K)
      then (ffa_to_smccc_res K (FFA_RET_INVALID_PARAMETERS K), s)
      else if \<not> PAGE_ALIGNED K tx \<or> \<not> PAGE_ALIGNED K rx
      then (ffa_to_smccc_res K (FFA_RET_INVALID_PARAMETERS K), s)
      else if host_kvm_ffa_tx s \<noteq> 0
      then (ffa_to_smccc_res K (FFA_RET_DENIED K), s)
      else
        (case spmd_map_ffa_buffers K (ucast npages) s of (ret, s1) \<Rightarrow>
           if ret \<noteq> 0 then (ffa_to_smccc_res K ret, s1)
           else
             (case pkvm_host_share_hyp (hyp_phys_to_pfn K tx) s1 of
                (Fail, s2) \<Rightarrow>
                  (ffa_to_smccc_res K (FFA_RET_INVALID_PARAMETERS K),
                   snd (spmd_unmap_ffa_buffers K s2))
              | (Ok, s2) \<Rightarrow>
                  (case pkvm_host_share_hyp (hyp_phys_to_pfn K rx) s2 of
                     (Fail, s3) \<Rightarrow>
                       (ffa_to_smccc_res K (FFA_RET_INVALID_PARAMETERS K),
                        snd (spmd_unmap_ffa_buffers K
                               (snd (pkvm_host_unshare_hyp (hyp_phys_to_pfn K tx) s3))))
                   | (Ok, s3) \<Rightarrow>
                       (ffa_to_smccc_res K 0,
                        s3\<lparr>host_kvm_ffa_tx := hyp_phys_to_virt K tx,
                           host_kvm_ffa_rx := hyp_phys_to_virt K rx\<rparr>)))))"

definition do_ffa_rxtx_unmap ::
  "ffa_consts \<Rightarrow> kvm_cpu_context \<Rightarrow> hyp_state \<Rightarrow> arm_smccc_res \<times> hyp_state" where
  "do_ffa_rxtx_unmap K ctxt s =
     (let id = (ucast (cpu_reg ctxt 1) :: u32)
      in
      if id \<noteq> HOST_FFA_ID
      then (ffa_to_smccc_res K (FFA_RET_INVALID_PARAMETERS K), s)
      else if host_kvm_ffa_tx s = 0
      then (ffa_to_smccc_res K (FFA_RET_INVALID_PARAMETERS K), s)
      else
        (case pkvm_host_unshare_hyp (hyp_virt_to_pfn K (host_kvm_ffa_tx s)) s of (r1, s1) \<Rightarrow>
           let s2 = (WARN_ON (r1 = Fail) s1)\<lparr>host_kvm_ffa_tx := 0\<rparr>
           in
           (case pkvm_host_unshare_hyp (hyp_virt_to_pfn K (host_kvm_ffa_rx s2)) s2 of (r2, s3) \<Rightarrow>
              let s4 = (WARN_ON (r2 = Fail) s3)\<lparr>host_kvm_ffa_rx := 0\<rparr>
              in (ffa_to_smccc_res K 0, snd (spmd_unmap_ffa_buffers K s4)))))"

subsection \<open>Ownership transitions over a list of ranges\<close>

definition range_npages :: "ffa_consts \<Rightarrow> ffa_mem_region_addr_range \<Rightarrow> u64" where
  "range_npages K rng = (ucast (pg_cnt rng * FFA_PAGE_SIZE K) :: u64) div PAGE_SIZE K"

definition range_pfn :: "ffa_consts \<Rightarrow> ffa_mem_region_addr_range \<Rightarrow> u64" where
  "range_pfn K rng = hyp_phys_to_pfn K (address rng)"

text \<open>
  The loop of \<^verbatim>\<open>__ffa_host_share_ranges\<close> over \<open>ranges[0]\<close>, ..., \<open>ranges[nranges - 1]\<close>:
  it stops at the first range the ownership table refuses and returns the index reached.
  The counter is a \<open>u32\<close> in the source and never exceeds \<open>nranges\<close>.
\<close>

fun share_ranges_loop ::
  "ffa_consts \<Rightarrow> ffa_mem_region_addr_range list \<Rightarrow> hyp_state \<Rightarrow> nat \<times> hyp_state" where
  "share_ranges_loop K [] s = (0, s)"
| "share_ranges_loop K (rng # ranges) s =
     (case pkvm_host_share_ffa (range_pfn K rng) (range_npages K rng) s of
        (Fail, s') \<Rightarrow> (0, s')
      | (Ok, s') \<Rightarrow> (case share_ranges_loop K ranges s' of (i, s'') \<Rightarrow> (Suc i, s'')))"

fun unshare_ranges_loop ::
  "ffa_consts \<Rightarrow> ffa_mem_region_addr_range list \<Rightarrow> hyp_state \<Rightarrow> nat \<times> hyp_state" where
  "unshare_ranges_loop K [] s = (0, s)"
| "unshare_ranges_loop K (rng # ranges) s =
     (case pkvm_host_unshare_ffa (range_pfn K rng) (range_npages K rng) s of
        (Fail, s') \<Rightarrow> (0, s')
      | (Ok, s') \<Rightarrow> (case unshare_ranges_loop K ranges s' of (i, s'') \<Rightarrow> (Suc i, s'')))"

text \<open>\<^verbatim>\<open>__ffa_host_share_ranges\<close> and \<^verbatim>\<open>__ffa_host_unshare_ranges\<close>: the array is
  the view \<open>ranges\<close>, read at the indices below \<open>nranges\<close>.\<close>

definition u_ffa_host_share_ranges ::
  "ffa_consts \<Rightarrow> (nat \<Rightarrow> ffa_mem_region_addr_range) \<Rightarrow> nat \<Rightarrow> hyp_state \<Rightarrow> nat \<times> hyp_state" where
  "u_ffa_host_share_ranges K ranges nranges s =
     share_ranges_loop K (map ranges [0..<nranges]) s"

definition u_ffa_host_unshare_ranges ::
  "ffa_consts \<Rightarrow> (nat \<Rightarrow> ffa_mem_region_addr_range) \<Rightarrow> nat \<Rightarrow> hyp_state \<Rightarrow> nat \<times> hyp_state" where
  "u_ffa_host_unshare_ranges K ranges nranges s =
     unshare_ranges_loop K (map ranges [0..<nranges]) s"

definition ffa_host_share_ranges ::
  "ffa_consts \<Rightarrow> (nat \<Rightarrow> ffa_mem_region_addr_range) \<Rightarrow> u32 \<Rightarrow> hyp_state \<Rightarrow> s32 \<times> hyp_state" where
  "ffa_host_share_ranges K ranges nranges s =
     (case u_ffa_host_share_ranges K ranges (unat nranges) s of (nshared, s1) \<Rightarrow>
        if nshared \<noteq> unat nranges
        then (case u_ffa_host_unshare_ranges K ranges nshared s1 of (n, s2) \<Rightarrow>
                (FFA_RET_DENIED K, WARN_ON (n \<noteq> 0) s2))
        else (0, s1))"

definition ffa_host_unshare_ranges ::
  "ffa_consts \<Rightarrow> (nat \<Rightarrow> ffa_mem_region_addr_range) \<Rightarrow> u32 \<Rightarrow> hyp_state \<Rightarrow> s32 \<times> hyp_state" where
  "ffa_host_unshare_ranges K ranges nranges s =
     (case u_ffa_host_unshare_ranges K ranges (unat nranges) s of (nunshared, s1) \<Rightarrow>
        if nunshared \<noteq> unat nranges
        then (case u_ffa_host_share_ranges K ranges nunshared s1 of (n, s2) \<Rightarrow>
                (FFA_RET_DENIED K, WARN_ON (n \<noteq> 0) s2))
        else (0, s1))"

subsection \<open>Share and lend\<close>

text \<open>
  \<open>res\<close> is the caller's result structure, which the source leaves as it is on a path
  where \<open>ret\<close> is 0. The staged copy \<open>buf\<close> is the host's TX mailbox at the time of the
  \<^verbatim>\<open>memcpy\<close>; every field the proxy reads from it lies within the \<open>fraglen\<close> bytes copied.
\<close>

definition do_ffa_mem_xfer ::
  "ffa_consts \<Rightarrow> u64 \<Rightarrow> arm_smccc_res \<Rightarrow> kvm_cpu_context \<Rightarrow> hyp_state
     \<Rightarrow> arm_smccc_res \<times> hyp_state" where
  "do_ffa_mem_xfer K func_id res ctxt s =
     (let len = (ucast (cpu_reg ctxt 1) :: u32);
          fraglen = (ucast (cpu_reg ctxt 2) :: u32);
          addr_mbz = cpu_reg ctxt 3;
          npages_mbz = (ucast (cpu_reg ctxt 4) :: u32);
          out = (\<lambda>ret res s. (if ret \<noteq> 0 then ffa_to_smccc_res K ret else res, s))
      in
      if addr_mbz \<noteq> 0 \<or> npages_mbz \<noteq> 0 \<or> fraglen > len \<or>
         (ucast fraglen :: u64) > KVM_FFA_MBOX_NR_PAGES K * PAGE_SIZE K
      then out (FFA_RET_INVALID_PARAMETERS K) res s
      else if fraglen < len
      then out (FFA_RET_ABORTED K) res s
      else if (ucast fraglen :: u64) <
                sizeof_ffa_mem_region K + sizeof_ffa_mem_region_attributes K
      then out (FFA_RET_INVALID_PARAMETERS K) res s
      else if host_kvm_ffa_tx s = 0
      then out (FFA_RET_INVALID_PARAMETERS K) res s
      else
        (let buf = host_tx_mbox s;
             offset = ep_mem_access0_composite_off buf
         in
         if offset = 0 \<or> ep_count buf \<noteq> 1 \<or> sender_id buf \<noteq> HOST_FFA_ID
         then out (FFA_RET_INVALID_PARAMETERS K) res s
         else if (ucast fraglen :: u64) <
                   ucast offset + sizeof_ffa_composite_mem_region K
         then out (FFA_RET_INVALID_PARAMETERS K) res s
         else
           (let reg = composite_at buf offset
            in
            if (ucast fraglen :: u64) <
                 ucast offset + sizeof_ffa_composite_mem_region K +
                 ucast (addr_range_cnt reg) * sizeof_ffa_mem_region_addr_range K
            then out (FFA_RET_INVALID_PARAMETERS K) res s
            else
              (case ffa_host_share_ranges K (constituents reg) (addr_range_cnt reg) s of
                 (ret, s1) \<Rightarrow>
                   if ret \<noteq> 0 then out ret res s1
                   else
                     (case spmd_mem_xfer func_id len fraglen s1 of (res', s2) \<Rightarrow>
                        if a0 res' \<noteq> FFA_SUCCESS K
                        then (case ffa_host_unshare_ranges K (constituents reg)
                                     (addr_range_cnt reg) s2 of
                                (r, s3) \<Rightarrow> out ret res' (WARN_ON (r \<noteq> 0) s3))
                        else out ret res' s2)))))"

subsection \<open>Reclaim\<close>

text \<open>
  The retrieve request written into \<^verbatim>\<open>ffa_buffers.tx\<close> is read by the downstream
  authority only, whose answers are unconstrained. \<open>buf\<close> points to \<^verbatim>\<open>ffa_buffers.rx\<close>:
  the offset is read after the retrieve request, the ranges after the reclaim call.
\<close>

definition do_ffa_mem_reclaim ::
  "ffa_consts \<Rightarrow> kvm_cpu_context \<Rightarrow> hyp_state \<Rightarrow> arm_smccc_res \<times> hyp_state" where
  "do_ffa_mem_reclaim K ctxt s =
     (let handle_lo = (ucast (cpu_reg ctxt 1) :: u32);
          handle_hi = (ucast (cpu_reg ctxt 2) :: u32);
          flags = (ucast (cpu_reg ctxt 3) :: u32);
          out = (\<lambda>ret res s. (if ret \<noteq> 0 then ffa_to_smccc_res K ret else res, s))
      in
      (case spmd_retrieve_req K (ucast (sizeof_ffa_mem_region K)) s of (res, s1) \<Rightarrow>
         if a0 res \<noteq> FFA_MEM_RETRIEVE_RESP K then out 0 res s1
         else if a1 res \<noteq> a2 res then out (FFA_RET_ABORTED K) res s1
         else
           (let offset = ep_mem_access0_composite_off (ffa_buffers_rx_mbox s1)
            in
            if (ucast offset :: u64) > KVM_FFA_MBOX_NR_PAGES K * PAGE_SIZE K
            then out (FFA_RET_ABORTED K) res (WARN_ON True s1)
            else
              (case spmd_mem_reclaim K handle_lo handle_hi flags s1 of (res', s2) \<Rightarrow>
                 if a0 res' \<noteq> FFA_SUCCESS K then out 0 res' s2
                 else
                   (let reg = composite_at (ffa_buffers_rx_mbox s2) offset
                    in
                    (case ffa_host_unshare_ranges K (constituents reg)
                            (addr_range_cnt reg) s2 of
                       (r, s3) \<Rightarrow> out 0 res' (WARN_ON (r \<noteq> 0) s3)))))))"

subsection \<open>Unsupported calls, feature query, dispatch\<close>

definition ffa_call_unsupported :: "ffa_consts \<Rightarrow> u64 \<Rightarrow> bool" where
  "ffa_call_unsupported K func_id \<longleftrightarrow>
     func_id = FFA_FN64_MEM_RETRIEVE_REQ K \<or>
     func_id = FFA_MEM_RETRIEVE_RESP K \<or>
     func_id = FFA_MEM_RELINQUISH K \<or>
     func_id = FFA_MEM_OP_PAUSE K \<or>
     func_id = FFA_MEM_OP_RESUME K \<or>
     func_id = FFA_MEM_FRAG_RX K \<or>
     func_id = FFA_FN64_MEM_DONATE K \<or>
     func_id = FFA_MSG_SEND K \<or>
     func_id = FFA_MSG_POLL K \<or>
     func_id = FFA_MSG_WAIT K \<or>
     func_id = FFA_MSG_SEND_DIRECT_REQ K \<or>
     func_id = FFA_MSG_SEND_DIRECT_RESP K \<or>
     func_id = FFA_RXTX_MAP K \<or>
     func_id = FFA_MEM_DONATE K \<or>
     func_id = FFA_MEM_RETRIEVE_REQ K"

text \<open>\<open>None\<close> is \<^verbatim>\<open>return false\<close>: the call is not handled and \<open>res\<close> is not set.
  The \<^verbatim>\<open>switch\<close> is on the \<open>u32\<close> \<open>id\<close>, to whose type its case labels are converted.\<close>

definition do_ffa_features :: "ffa_consts \<Rightarrow> kvm_cpu_context \<Rightarrow> arm_smccc_res option" where
  "do_ffa_features K ctxt =
     (let id = (ucast (cpu_reg ctxt 1) :: u32)
      in
      if ffa_call_unsupported K (ucast id)
      then Some (ffa_to_smccc_res_prop K (FFA_RET_NOT_SUPPORTED K) 0)
      else if id = ucast (FFA_MEM_SHARE K) \<or> id = ucast (FFA_FN64_MEM_SHARE K) \<or>
              id = ucast (FFA_MEM_LEND K) \<or> id = ucast (FFA_FN64_MEM_LEND K)
      then Some (ffa_to_smccc_res_prop K (FFA_RET_SUCCESS K) 0)
      else None)"

text \<open>
  \<open>None\<close> is \<^verbatim>\<open>return false\<close>: the call is passed on and neither the registers nor the
  state have been touched. \<open>res\<close> is the uninitialised local of the source. The cases of
  the \<^verbatim>\<open>switch\<close> are tried in the order of the source; \<open>after_switch\<close> is the code
  that follows it, reached by the \<^verbatim>\<open>break\<close> of \<open>FFA_MEM_FRAG_TX\<close> and by every
  function identifier that has no case.
\<close>

definition kvm_host_ffa_handler ::
  "ffa_consts \<Rightarrow> arm_smccc_res \<Rightarrow> kvm_cpu_context \<Rightarrow> hyp_state
     \<Rightarrow> (kvm_cpu_context \<times> hyp_state) option" where
  "kvm_host_ffa_handler K res host_ctxt s =
     (let func_id = cpu_reg host_ctxt 0;
          out_handled = (\<lambda>(res, s). Some (ffa_set_retval host_ctxt res, s));
          after_switch =
            (if \<not> ffa_call_unsupported K func_id then None
             else out_handled (ffa_to_smccc_error K (scast (FFA_RET_NOT_SUPPORTED K)), s))
      in
      if \<not> is_ffa_call K func_id then None
      else if func_id = FFA_FEATURES K then
        (case do_ffa_features K host_ctxt of
           None \<Rightarrow> None
         | Some res' \<Rightarrow> out_handled (res', s))
      else if func_id = FFA_FN64_RXTX_MAP K then out_handled (do_ffa_rxtx_map K host_ctxt s)
      else if func_id = FFA_RXTX_UNMAP K then out_handled (do_ffa_rxtx_unmap K host_ctxt s)
      else if func_id = FFA_MEM_SHARE K \<or> func_id = FFA_FN64_MEM_SHARE K
      then out_handled (do_ffa_mem_xfer K (FFA_FN64_MEM_SHARE K) res host_ctxt s)
      else if func_id = FFA_MEM_RECLAIM K then out_handled (do_ffa_mem_reclaim K host_ctxt s)
      else if func_id = FFA_MEM_LEND K \<or> func_id = FFA_FN64_MEM_LEND K
      then out_handled (do_ffa_mem_xfer K (FFA_FN64_MEM_LEND K) res host_ctxt s)
      else if func_id = FFA_MEM_FRAG_TX K then after_switch
      else after_switch)"

section \<open>The declarations of an arm64 build with 4K pages\<close>

text \<open>
  The values of FF-A v1.0 and of the SMC calling convention, with \<open>PAGE_SHIFT = 12\<close>, one
  page for each mailbox, and a linear map that places a physical address \<open>p\<close> at
  \<open>p + 0xFFFF800000000000\<close>. The examples below run the proxy with them.
\<close>

definition arm64_consts :: ffa_consts where
  "arm64_consts = \<lparr>
     FFA_ERROR = 0x84000060,
     FFA_SUCCESS = 0x84000061,
     FFA_FEATURES = 0x84000064,
     FFA_RXTX_MAP = 0x84000066,
     FFA_FN64_RXTX_MAP = 0xC4000066,
     FFA_RXTX_UNMAP = 0x84000067,
     FFA_MSG_POLL = 0x8400006A,
     FFA_MSG_WAIT = 0x8400006B,
     FFA_MSG_SEND = 0x8400006E,
     FFA_MSG_SEND_DIRECT_REQ = 0x8400006F,
     FFA_MSG_SEND_DIRECT_RESP = 0x84000070,
     FFA_MEM_DONATE = 0x84000071,
     FFA_FN64_MEM_DONATE = 0xC4000071,
     FFA_MEM_LEND = 0x84000072,
     FFA_FN64_MEM_LEND = 0xC4000072,
     FFA_MEM_SHARE = 0x84000073,
     FFA_FN64_MEM_SHARE = 0xC4000073,
     FFA_MEM_RETRIEVE_REQ = 0x84000074,
     FFA_FN64_MEM_RETRIEVE_REQ = 0xC4000074,
     FFA_MEM_RETRIEVE_RESP = 0x84000075,
     FFA_MEM_RELINQUISH = 0x84000076,
     FFA_MEM_RECLAIM = 0x84000077,
     FFA_MEM_OP_PAUSE = 0x84000078,
     FFA_MEM_OP_RESUME = 0x84000079,
     FFA_MEM_FRAG_RX = 0x8400007A,
     FFA_MEM_FRAG_TX = 0x8400007B,
     FFA_RET_SUCCESS = 0,
     FFA_RET_NOT_SUPPORTED = - 1,
     FFA_RET_INVALID_PARAMETERS = - 2,
     FFA_RET_DENIED = - 6,
     FFA_RET_ABORTED = - 8,
     ARM_SMCCC_IS_FAST_CALL = (\<lambda>v. v AND 0x80000000 \<noteq> 0),
     ARM_SMCCC_OWNER_NUM = (\<lambda>v. drop_bit 24 v AND 0x3F),
     ARM_SMCCC_FUNC_NUM = (\<lambda>v. v AND 0xFFFF),
     ARM_SMCCC_OWNER_STANDARD = 4,
     FFA_MIN_FUNC_NUM = 0x60,
     FFA_MAX_FUNC_NUM = 0x7F,
     PAGE_SIZE = 0x1000,
     FFA_PAGE_SIZE = 0x1000,
     KVM_FFA_MBOX_NR_PAGES = 1,
     PAGE_ALIGNED = (\<lambda>x. x AND 0xFFF = 0),
     hyp_phys_to_pfn = (\<lambda>p. drop_bit 12 p),
     hyp_phys_to_virt = (\<lambda>p. p + 0xFFFF800000000000),
     hyp_virt_to_pfn = (\<lambda>v. drop_bit 12 (v - 0xFFFF800000000000)),
     hyp_virt_to_phys = (\<lambda>v. v - 0xFFFF800000000000),
     ffa_buffers_tx = 0xFFFF800080000000,
     ffa_buffers_rx = 0xFFFF800080001000,
     sizeof_ffa_mem_region = 32,
     sizeof_ffa_mem_region_attributes = 16,
     sizeof_ffa_composite_mem_region = 16,
     sizeof_ffa_mem_region_addr_range = 16\<rparr>"

section \<open>Examples\<close>

text \<open>
  Concrete inputs: a register file given by its first registers, an uninitialised result
  structure, an ownership record in which the listed page frames are shared with the
  downstream authority and every other one is host-owned-only, a descriptor with one
  receiver and two ranges (page frame 1, and page frames 3 and 4) whose composite region
  is at offset 48, a downstream authority that gives the same answer to every call, and a
  state with the host's mailboxes mapped or not.
\<close>

definition ex_ctxt :: "u64 list \<Rightarrow> kvm_cpu_context" where
  "ex_ctxt regs r = (if r < length regs then regs ! r else 0)"

definition ex_res :: arm_smccc_res where
  "ex_res = \<lparr>a0 = 0xFFFFFFFF, a1 = 0xFFFFFFFF, a2 = 0xFFFFFFFF, a3 = 0xFFFFFFFF\<rparr>"

definition ex_own :: "nat list \<Rightarrow> nat \<Rightarrow> page_state" where
  "ex_own shared p = (if p \<in> set shared then SHARED_DOWNSTREAM else HOST_ONLY)"

definition ex_ranges :: "nat \<Rightarrow> ffa_mem_region_addr_range" where
  "ex_ranges i = (if i = 0 then \<lparr>address = 0x1000, pg_cnt = 1\<rparr> else \<lparr>address = 0x3000, pg_cnt = 2\<rparr>)"

definition ex_mbox :: ffa_mem_region where
  "ex_mbox = \<lparr>sender_id = 0, ep_count = 1, ep_mem_access0_composite_off = 48,
     composite_at = (\<lambda>off. \<lparr>addr_range_cnt = 2, constituents = ex_ranges\<rparr>)\<rparr>"

definition ex_reply :: "u64 \<Rightarrow> u64 \<Rightarrow> u64 \<Rightarrow> nat \<Rightarrow> spmd_reply" where
  "ex_reply x0 x1 x2 n = \<lparr>reply_res = \<lparr>a0 = x0, a1 = x1, a2 = x2, a3 = 0\<rparr>, reply_rx = ex_mbox\<rparr>"

definition ex_state :: "(nat \<Rightarrow> page_state) \<Rightarrow> (nat \<Rightarrow> spmd_reply) \<Rightarrow> hyp_state" where
  "ex_state own replies = \<lparr>host_kvm_ffa_tx = 0xFFFF800000005000, host_kvm_ffa_rx = 0xFFFF800000006000,
     host_tx_mbox = ex_mbox, ffa_buffers_rx_mbox = ex_mbox, ownership = own, spmd = replies, trace = []\<rparr>"

definition ex_unmapped :: "(nat \<Rightarrow> page_state) \<Rightarrow> (nat \<Rightarrow> spmd_reply) \<Rightarrow> hyp_state" where
  "ex_unmapped own replies = (ex_state own replies)\<lparr>host_kvm_ffa_tx := 0, host_kvm_ffa_rx := 0\<rparr>"

section \<open>Notions used in the statements\<close>

subsection \<open>Return codes\<close>

text \<open>
  The source tests \<^verbatim>\<open>if (ret)\<close> and \<^verbatim>\<open>ret == FFA_RET_SUCCESS\<close>, so what it answers depends
  on \<open>FFA_RET_SUCCESS\<close> being 0 and on the error codes being different from it and from
  each other. \<open>ffa_error K code\<close> is the result structure of an error: \<open>FFA_ERROR\<close> in
  \<open>a0\<close> and the sign-extended code in \<open>a2\<close>.
\<close>

definition ffa_ret_codes_ok :: "ffa_consts \<Rightarrow> bool" where
  "ffa_ret_codes_ok K \<longleftrightarrow>
     FFA_RET_SUCCESS K = 0 \<and>
     distinct [FFA_RET_SUCCESS K, FFA_RET_NOT_SUPPORTED K, FFA_RET_INVALID_PARAMETERS K,
               FFA_RET_DENIED K, FFA_RET_ABORTED K]"

definition ffa_error :: "ffa_consts \<Rightarrow> s32 \<Rightarrow> arm_smccc_res" where
  "ffa_error K code = ffa_to_smccc_error K (scast code)"

subsection \<open>Ranges, their pages and the calls made for them\<close>

definition range_pages :: "ffa_consts \<Rightarrow> ffa_mem_region_addr_range \<Rightarrow> nat set" where
  "range_pages K rng = pfn_range (range_pfn K rng) (range_npages K rng)"

definition ranges_pages :: "ffa_consts \<Rightarrow> ffa_mem_region_addr_range list \<Rightarrow> nat set" where
  "ranges_pages K ranges = (\<Union>rng \<in> set ranges. range_pages K rng)"

fun disjoint_ranges :: "ffa_consts \<Rightarrow> ffa_mem_region_addr_range list \<Rightarrow> bool" where
  "disjoint_ranges K [] = True"
| "disjoint_ranges K (rng # ranges) =
     (range_pages K rng \<inter> ranges_pages K ranges = {} \<and> disjoint_ranges K ranges)"

definition share_events :: "ffa_consts \<Rightarrow> ffa_mem_region_addr_range list \<Rightarrow> event list" where
  "share_events K ranges = map (\<lambda>rng. HOST_SHARE_FFA (range_pfn K rng) (range_npages K rng)) ranges"

definition unshare_events :: "ffa_consts \<Rightarrow> ffa_mem_region_addr_range list \<Rightarrow> event list" where
  "unshare_events K ranges = map (\<lambda>rng. HOST_UNSHARE_FFA (range_pfn K rng) (range_npages K rng)) ranges"

subsection \<open>A call to the downstream authority\<close>

text \<open>\<open>smc_done e s\<close> is the state after the call recorded as \<open>e\<close>: the downstream
  authority has answered and may have written its mailbox; nothing else has changed.\<close>

definition smc_done :: "event \<Rightarrow> hyp_state \<Rightarrow> hyp_state" where
  "smc_done e s = s\<lparr>ffa_buffers_rx_mbox := reply_rx (spmd s 0),
                     spmd := (\<lambda>n. spmd s (Suc n)),
                     trace := trace s @ [e]\<rparr>"

definition retrieve_req_event :: "ffa_consts \<Rightarrow> event" where
  "retrieve_req_event K =
     SMC (FFA_FN64_MEM_RETRIEVE_REQ K)
       (ucast (ucast (sizeof_ffa_mem_region K) :: u32))
       (ucast (ucast (sizeof_ffa_mem_region K) :: u32)) 0"

definition rxtx_map_event :: "ffa_consts \<Rightarrow> kvm_cpu_context \<Rightarrow> event" where
  "rxtx_map_event K ctxt =
     SMC (FFA_FN64_RXTX_MAP K) (hyp_virt_to_phys K (ffa_buffers_tx K))
       (hyp_virt_to_phys K (ffa_buffers_rx K)) (ucast (ucast (cpu_reg ctxt 3) :: u32))"

definition rxtx_unmap_event :: "ffa_consts \<Rightarrow> event" where
  "rxtx_unmap_event K = SMC (FFA_RXTX_UNMAP K) HOST_FFA_ID 0 0"

definition rxtx_map_ret :: "ffa_consts \<Rightarrow> hyp_state \<Rightarrow> s32" where
  "rxtx_map_ret K s =
     (if a0 (reply_res (spmd s 0)) = FFA_SUCCESS K then FFA_RET_SUCCESS K
      else ucast (a2 (reply_res (spmd s 0))))"

subsection \<open>Share and lend requests\<close>

text \<open>
  \<open>xfer_regs_ok\<close> holds when a request passes the checks \<^verbatim>\<open>do_ffa_mem_xfer\<close> makes on the
  registers alone, \<open>xfer_desc_ok\<close> when the staged descriptor passes the checks made on it.
  \<open>xfer_reg\<close> is the composite region of the host's descriptor and \<open>xfer_ranges\<close> its
  constituent ranges.
\<close>

definition xfer_len :: "kvm_cpu_context \<Rightarrow> u32" where
  "xfer_len ctxt = ucast (cpu_reg ctxt 1)"

definition xfer_fraglen :: "kvm_cpu_context \<Rightarrow> u32" where
  "xfer_fraglen ctxt = ucast (cpu_reg ctxt 2)"

definition xfer_regs_ok :: "ffa_consts \<Rightarrow> kvm_cpu_context \<Rightarrow> bool" where
  "xfer_regs_ok K ctxt \<longleftrightarrow>
     cpu_reg ctxt 3 = 0 \<and> (ucast (cpu_reg ctxt 4) :: u32) = 0 \<and>
     xfer_fraglen ctxt = xfer_len ctxt \<and>
     (ucast (xfer_fraglen ctxt) :: u64) \<le> KVM_FFA_MBOX_NR_PAGES K * PAGE_SIZE K \<and>
     (ucast (xfer_fraglen ctxt) :: u64) \<ge>
        sizeof_ffa_mem_region K + sizeof_ffa_mem_region_attributes K"

definition xfer_desc_ok :: "ffa_consts \<Rightarrow> u32 \<Rightarrow> ffa_mem_region \<Rightarrow> bool" where
  "xfer_desc_ok K fraglen buf \<longleftrightarrow>
     ep_mem_access0_composite_off buf \<noteq> 0 \<and> ep_count buf = 1 \<and> sender_id buf = HOST_FFA_ID \<and>
     (ucast fraglen :: u64) \<ge>
        ucast (ep_mem_access0_composite_off buf) + sizeof_ffa_composite_mem_region K \<and>
     (ucast fraglen :: u64) \<ge>
        ucast (ep_mem_access0_composite_off buf) + sizeof_ffa_composite_mem_region K +
        ucast (addr_range_cnt (composite_at buf (ep_mem_access0_composite_off buf))) *
          sizeof_ffa_mem_region_addr_range K"

definition xfer_reg :: "hyp_state \<Rightarrow> ffa_composite_mem_region" where
  "xfer_reg s = composite_at (host_tx_mbox s) (ep_mem_access0_composite_off (host_tx_mbox s))"

definition xfer_ranges :: "hyp_state \<Rightarrow> ffa_mem_region_addr_range list" where
  "xfer_ranges s = map (constituents (xfer_reg s)) [0..<unat (addr_range_cnt (xfer_reg s))]"

subsection \<open>Buffer map requests\<close>

text \<open>\<open>rxtx_map_args_ok\<close> holds when the page count is the one of the negotiated
  geometry and both addresses are page-aligned.\<close>

definition rxtx_map_args_ok :: "ffa_consts \<Rightarrow> kvm_cpu_context \<Rightarrow> bool" where
  "rxtx_map_args_ok K ctxt \<longleftrightarrow>
     (ucast (ucast (cpu_reg ctxt 3) :: u32) :: u64) =
        (KVM_FFA_MBOX_NR_PAGES K * PAGE_SIZE K) div ucast (FFA_PAGE_SIZE K) \<and>
     PAGE_ALIGNED K (cpu_reg ctxt 1) \<and> PAGE_ALIGNED K (cpu_reg ctxt 2)"

definition tx_pfn :: "ffa_consts \<Rightarrow> kvm_cpu_context \<Rightarrow> u64" where
  "tx_pfn K ctxt = hyp_phys_to_pfn K (cpu_reg ctxt 1)"

definition rx_pfn :: "ffa_consts \<Rightarrow> kvm_cpu_context \<Rightarrow> u64" where
  "rx_pfn K ctxt = hyp_phys_to_pfn K (cpu_reg ctxt 2)"

subsection \<open>Function identifiers\<close>

text \<open>
  \<open>unsupported_ids\<close> are the case labels of \<^verbatim>\<open>ffa_call_unsupported\<close>, \<open>dispatched_ids\<close>
  the case labels of \<^verbatim>\<open>kvm_host_ffa_handler\<close> that call a handler, \<open>xfer_ids\<close> the case
  labels of \<^verbatim>\<open>do_ffa_features\<close>. \<open>unsupported_ids_ok\<close> says of the numbering that the
  first are FF-A calls and none of the second; \<open>xfer_ids_ok\<close> that none of the third is
  among the first. \<open>features_id\<close> is the function identifier a feature query asks about.
\<close>

definition unsupported_ids :: "ffa_consts \<Rightarrow> u64 list" where
  "unsupported_ids K =
     [FFA_FN64_MEM_RETRIEVE_REQ K, FFA_MEM_RETRIEVE_RESP K, FFA_MEM_RELINQUISH K,
      FFA_MEM_OP_PAUSE K, FFA_MEM_OP_RESUME K, FFA_MEM_FRAG_RX K, FFA_FN64_MEM_DONATE K,
      FFA_MSG_SEND K, FFA_MSG_POLL K, FFA_MSG_WAIT K,
      FFA_MSG_SEND_DIRECT_REQ K, FFA_MSG_SEND_DIRECT_RESP K, FFA_RXTX_MAP K,
      FFA_MEM_DONATE K, FFA_MEM_RETRIEVE_REQ K]"

definition dispatched_ids :: "ffa_consts \<Rightarrow> u64 list" where
  "dispatched_ids K =
     [FFA_FEATURES K, FFA_FN64_RXTX_MAP K, FFA_RXTX_UNMAP K, FFA_MEM_SHARE K,
      FFA_FN64_MEM_SHARE K, FFA_MEM_RECLAIM K, FFA_MEM_LEND K, FFA_FN64_MEM_LEND K]"


definition unsupported_ids_ok :: "ffa_consts \<Rightarrow> bool" where
  "unsupported_ids_ok K \<longleftrightarrow>
     FFA_RET_NOT_SUPPORTED K \<noteq> FFA_RET_SUCCESS K \<and>
     is_ffa_call K (FFA_FEATURES K) \<and>
     list_all (\<lambda>f. is_ffa_call K f \<and> f \<notin> set (dispatched_ids K)) (unsupported_ids K)"


definition features_id :: "kvm_cpu_context \<Rightarrow> u32" where
  "features_id ctxt = ucast (cpu_reg ctxt 1)"

section \<open>Auxiliary facts\<close>

lemma ranges_pages_simps [simp]:
  "ranges_pages K [] = {}"
  "ranges_pages K (r # rs) = range_pages K r \<union> ranges_pages K rs"
  by (simp_all add: ranges_pages_def)

lemma events_simps [simp]:
  "share_events K [] = []"
  "share_events K (r # rs) = HOST_SHARE_FFA (range_pfn K r) (range_npages K r) # share_events K rs"
  "unshare_events K [] = []"
  "unshare_events K (r # rs) = HOST_UNSHARE_FFA (range_pfn K r) (range_npages K r) # unshare_events K rs"
  by (simp_all add: share_events_def unshare_events_def)

lemma mark_empty [simp]: "mark {} st own = own"
  by (simp add: mark_def)

lemma mark_mark_union: "mark B st (mark A st own) = mark (A \<union> B) st own"
  by (auto simp: mark_def fun_eq_iff)

lemma mark_restore:
  "\<forall>p \<in> A. own p = st \<Longrightarrow> mark A st (mark A st' own) = own"
  by (auto simp: mark_def fun_eq_iff)

lemma share_ranges_loop_result:
  "share_ranges_loop K rs s = (k, s1) \<Longrightarrow>
     k \<le> length rs \<and> disjoint_ranges K (take k rs) \<and>
     (\<forall>p \<in> ranges_pages K (take k rs). ownership s p = HOST_ONLY) \<and>
     s1 = s\<lparr>ownership := mark (ranges_pages K (take k rs)) SHARED_DOWNSTREAM (ownership s),
            trace := trace s @ share_events K (take (Suc k) rs)\<rparr>"
proof (induction rs arbitrary: s k s1)
  case Nil
  then show ?case by simp
next
  case (Cons r rs)
  show ?case
  proof (cases "\<forall>p \<in> range_pages K r. ownership s p = HOST_ONLY")
    case False
    then have "pkvm_host_share_ffa (range_pfn K r) (range_npages K r) s =
                 (Fail, s\<lparr>trace := trace s @ [HOST_SHARE_FFA (range_pfn K r) (range_npages K r)]\<rparr>)"
      by (simp add: pkvm_host_share_ffa_def range_pages_def)
    with Cons.prems show ?thesis
      by auto
  next
    case True
    define s' where "s' = s\<lparr>ownership := mark (range_pages K r) SHARED_DOWNSTREAM (ownership s),
                            trace := trace s @ [HOST_SHARE_FFA (range_pfn K r) (range_npages K r)]\<rparr>"
    from True have step: "pkvm_host_share_ffa (range_pfn K r) (range_npages K r) s = (Ok, s')"
      by (simp add: pkvm_host_share_ffa_def range_pages_def s'_def)
    obtain j s'' where rec: "share_ranges_loop K rs s' = (j, s'')"
      by (cases "share_ranges_loop K rs s'")
    from Cons.prems step rec have k: "k = Suc j" and s1: "s1 = s''"
      by simp_all
    from Cons.IH [OF rec] have
      j: "j \<le> length rs" and
      dj: "disjoint_ranges K (take j rs)" and
      own: "\<forall>p \<in> ranges_pages K (take j rs). ownership s' p = HOST_ONLY" and
      s'': "s'' = s'\<lparr>ownership := mark (ranges_pages K (take j rs)) SHARED_DOWNSTREAM (ownership s'),
                     trace := trace s' @ share_events K (take (Suc j) rs)\<rparr>"
      by simp_all
    have sep: "range_pages K r \<inter> ranges_pages K (take j rs) = {}"
      using own by (auto simp: s'_def mark_def)
    have own_s: "\<forall>p \<in> ranges_pages K (take j rs). ownership s p = HOST_ONLY"
      using own sep by (auto simp: s'_def mark_def split: if_splits)
    show ?thesis
      using j dj sep own_s True
      by (auto simp: k s1 s'' s'_def mark_mark_union)
  qed
qed

lemma unshare_ranges_loop_result:
  "unshare_ranges_loop K rs s = (k, s1) \<Longrightarrow>
     k \<le> length rs \<and> disjoint_ranges K (take k rs) \<and>
     (\<forall>p \<in> ranges_pages K (take k rs). ownership s p = SHARED_DOWNSTREAM) \<and>
     s1 = s\<lparr>ownership := mark (ranges_pages K (take k rs)) HOST_ONLY (ownership s),
            trace := trace s @ unshare_events K (take (Suc k) rs)\<rparr>"
proof (induction rs arbitrary: s k s1)
  case Nil
  then show ?case by simp
next
  case (Cons r rs)
  show ?case
  proof (cases "\<forall>p \<in> range_pages K r. ownership s p = SHARED_DOWNSTREAM")
    case False
    then have "pkvm_host_unshare_ffa (range_pfn K r) (range_npages K r) s =
                 (Fail, s\<lparr>trace := trace s @ [HOST_UNSHARE_FFA (range_pfn K r) (range_npages K r)]\<rparr>)"
      by (simp add: pkvm_host_unshare_ffa_def range_pages_def)
    with Cons.prems show ?thesis
      by auto
  next
    case True
    define s' where "s' = s\<lparr>ownership := mark (range_pages K r) HOST_ONLY (ownership s),
                            trace := trace s @ [HOST_UNSHARE_FFA (range_pfn K r) (range_npages K r)]\<rparr>"
    from True have step: "pkvm_host_unshare_ffa (range_pfn K r) (range_npages K r) s = (Ok, s')"
      by (simp add: pkvm_host_unshare_ffa_def range_pages_def s'_def)
    obtain j s'' where rec: "unshare_ranges_loop K rs s' = (j, s'')"
      by (cases "unshare_ranges_loop K rs s'")
    from Cons.prems step rec have k: "k = Suc j" and s1: "s1 = s''"
      by simp_all
    from Cons.IH [OF rec] have
      j: "j \<le> length rs" and
      dj: "disjoint_ranges K (take j rs)" and
      own: "\<forall>p \<in> ranges_pages K (take j rs). ownership s' p = SHARED_DOWNSTREAM" and
      s'': "s'' = s'\<lparr>ownership := mark (ranges_pages K (take j rs)) HOST_ONLY (ownership s'),
                     trace := trace s' @ unshare_events K (take (Suc j) rs)\<rparr>"
      by simp_all
    have sep: "range_pages K r \<inter> ranges_pages K (take j rs) = {}"
      using own by (auto simp: s'_def mark_def)
    have own_s: "\<forall>p \<in> ranges_pages K (take j rs). ownership s p = SHARED_DOWNSTREAM"
      using own sep by (auto simp: s'_def mark_def split: if_splits)
    show ?thesis
      using j dj sep own_s True
      by (auto simp: k s1 s'' s'_def mark_mark_union)
  qed
qed

lemma unshare_ranges_loop_all:
  "disjoint_ranges K rs \<Longrightarrow>
   \<forall>p \<in> ranges_pages K rs. ownership s p = SHARED_DOWNSTREAM \<Longrightarrow>
   unshare_ranges_loop K rs s =
     (length rs, s\<lparr>ownership := mark (ranges_pages K rs) HOST_ONLY (ownership s),
                    trace := trace s @ unshare_events K rs\<rparr>)"
proof (induction rs arbitrary: s)
  case Nil
  then show ?case by simp
next
  case (Cons r rs)
  define s' where "s' = s\<lparr>ownership := mark (range_pages K r) HOST_ONLY (ownership s),
                          trace := trace s @ [HOST_UNSHARE_FFA (range_pfn K r) (range_npages K r)]\<rparr>"
  from Cons.prems have step: "pkvm_host_unshare_ffa (range_pfn K r) (range_npages K r) s = (Ok, s')"
    by (simp add: pkvm_host_unshare_ffa_def range_pages_def s'_def)
  have "\<forall>p \<in> ranges_pages K rs. ownership s' p = SHARED_DOWNSTREAM"
    using Cons.prems by (auto simp: s'_def mark_def)
  with Cons.IH [of s'] Cons.prems(1) have
    "unshare_ranges_loop K rs s' =
       (length rs, s'\<lparr>ownership := mark (ranges_pages K rs) HOST_ONLY (ownership s'),
                       trace := trace s' @ unshare_events K rs\<rparr>)"
    by simp
  with step show ?case
    by (simp add: s'_def mark_mark_union)
qed

lemma share_ranges_loop_all:
  "disjoint_ranges K rs \<Longrightarrow>
   \<forall>p \<in> ranges_pages K rs. ownership s p = HOST_ONLY \<Longrightarrow>
   share_ranges_loop K rs s =
     (length rs, s\<lparr>ownership := mark (ranges_pages K rs) SHARED_DOWNSTREAM (ownership s),
                    trace := trace s @ share_events K rs\<rparr>)"
proof (induction rs arbitrary: s)
  case Nil
  then show ?case by simp
next
  case (Cons r rs)
  define s' where "s' = s\<lparr>ownership := mark (range_pages K r) SHARED_DOWNSTREAM (ownership s),
                          trace := trace s @ [HOST_SHARE_FFA (range_pfn K r) (range_npages K r)]\<rparr>"
  from Cons.prems have step: "pkvm_host_share_ffa (range_pfn K r) (range_npages K r) s = (Ok, s')"
    by (simp add: pkvm_host_share_ffa_def range_pages_def s'_def)
  have "\<forall>p \<in> ranges_pages K rs. ownership s' p = HOST_ONLY"
    using Cons.prems by (auto simp: s'_def mark_def)
  with Cons.IH [of s'] Cons.prems(1) have
    "share_ranges_loop K rs s' =
       (length rs, s'\<lparr>ownership := mark (ranges_pages K rs) SHARED_DOWNSTREAM (ownership s'),
                       trace := trace s' @ share_events K rs\<rparr>)"
    by simp
  with step show ?case
    by (simp add: s'_def mark_mark_union)
qed

text \<open>The index at which the walk stops is the first range that the ownership table
  refuses once the ranges before it have been shared.\<close>

lemma share_ranges_loop_stops:
  "share_ranges_loop K rs s = (k, s1) \<Longrightarrow> k < length rs \<Longrightarrow>
     \<not> (\<forall>p \<in> range_pages K (rs ! k).
          mark (ranges_pages K (take k rs)) SHARED_DOWNSTREAM (ownership s) p = HOST_ONLY)"
proof (induction rs arbitrary: s k s1)
  case Nil
  then show ?case by simp
next
  case (Cons r rs)
  show ?case
  proof (cases "\<forall>p \<in> range_pages K r. ownership s p = HOST_ONLY")
    case False
    then have "pkvm_host_share_ffa (range_pfn K r) (range_npages K r) s =
                 (Fail, s\<lparr>trace := trace s @ [HOST_SHARE_FFA (range_pfn K r) (range_npages K r)]\<rparr>)"
      by (simp add: pkvm_host_share_ffa_def range_pages_def)
    with Cons.prems False show ?thesis
      by auto
  next
    case True
    define s' where "s' = s\<lparr>ownership := mark (range_pages K r) SHARED_DOWNSTREAM (ownership s),
                            trace := trace s @ [HOST_SHARE_FFA (range_pfn K r) (range_npages K r)]\<rparr>"
    from True have step: "pkvm_host_share_ffa (range_pfn K r) (range_npages K r) s = (Ok, s')"
      by (simp add: pkvm_host_share_ffa_def range_pages_def s'_def)
    obtain j s'' where rec: "share_ranges_loop K rs s' = (j, s'')"
      by (cases "share_ranges_loop K rs s'")
    from Cons.prems step rec have k: "k = Suc j" and j: "j < length rs"
      by simp_all
    from Cons.IH [OF rec j] show ?thesis
      by (simp add: k s'_def mark_mark_union)
  qed
qed

text \<open>Sharing a prefix and then unsharing it, in the same order, restores the record.\<close>

lemma share_then_unshare:
  assumes "share_ranges_loop K rs s = (k, s1)"
  shows "unshare_ranges_loop K (take k rs) s1 =
           (k, s\<lparr>trace := trace s @ share_events K (take (Suc k) rs) @ unshare_events K (take k rs)\<rparr>)"
proof -
  from share_ranges_loop_result [OF assms] have
    k: "k \<le> length rs" and
    dj: "disjoint_ranges K (take k rs)" and
    own: "\<forall>p \<in> ranges_pages K (take k rs). ownership s p = HOST_ONLY" and
    s1: "s1 = s\<lparr>ownership := mark (ranges_pages K (take k rs)) SHARED_DOWNSTREAM (ownership s),
                  trace := trace s @ share_events K (take (Suc k) rs)\<rparr>"
    by simp_all
  have "\<forall>p \<in> ranges_pages K (take k rs). ownership s1 p = SHARED_DOWNSTREAM"
    by (simp add: s1 mark_def)
  from unshare_ranges_loop_all [OF dj this] k own show ?thesis
    by (simp add: s1 mark_restore)
qed

lemma unshare_then_share:
  assumes "unshare_ranges_loop K rs s = (k, s1)"
  shows "share_ranges_loop K (take k rs) s1 =
           (k, s\<lparr>trace := trace s @ unshare_events K (take (Suc k) rs) @ share_events K (take k rs)\<rparr>)"
proof -
  from unshare_ranges_loop_result [OF assms] have
    k: "k \<le> length rs" and
    dj: "disjoint_ranges K (take k rs)" and
    own: "\<forall>p \<in> ranges_pages K (take k rs). ownership s p = SHARED_DOWNSTREAM" and
    s1: "s1 = s\<lparr>ownership := mark (ranges_pages K (take k rs)) HOST_ONLY (ownership s),
                  trace := trace s @ unshare_events K (take (Suc k) rs)\<rparr>"
    by simp_all
  have "\<forall>p \<in> ranges_pages K (take k rs). ownership s1 p = HOST_ONLY"
    by (simp add: s1 mark_def)
  from share_ranges_loop_all [OF dj this] k own show ?thesis
    by (simp add: s1 mark_restore)
qed

lemma map_upt_take: "k \<le> n \<Longrightarrow> take k (map f [0..<n]) = map f [0..<k]"
  by (simp add: take_map)

lemma ucast_scast_s32: "(ucast (scast (x :: s32) :: u64) :: s32) = x"
  by (rule bit_word_eqI) (auto simp: bit_simps)

lemma scast_s32_inj: "(scast (x :: s32) :: u64) = scast y \<longleftrightarrow> x = y"
  by (metis ucast_scast_s32)

lemma ffa_ret_codes_okD:
  assumes "ffa_ret_codes_ok K"
  shows "FFA_RET_SUCCESS K = 0"
    and "FFA_RET_NOT_SUPPORTED K \<noteq> 0"
    and "FFA_RET_INVALID_PARAMETERS K \<noteq> 0"
    and "FFA_RET_DENIED K \<noteq> 0"
    and "FFA_RET_ABORTED K \<noteq> 0"
    and "FFA_RET_ABORTED K \<noteq> FFA_RET_INVALID_PARAMETERS K"
    and "FFA_RET_DENIED K \<noteq> FFA_RET_INVALID_PARAMETERS K"
  using assms by (auto simp: ffa_ret_codes_ok_def)

lemma ffa_to_smccc_res_error:
  "FFA_RET_SUCCESS K = 0 \<Longrightarrow> ret \<noteq> 0 \<Longrightarrow> ffa_to_smccc_res K ret = ffa_error K ret"
  by (simp add: ffa_to_smccc_res_def ffa_to_smccc_res_prop_def ffa_error_def)

lemma ffa_error_inj: "ffa_error K x = ffa_error K y \<longleftrightarrow> x = y"
  by (auto simp: ffa_error_def ffa_to_smccc_error_def scast_s32_inj)

text \<open>\<open>smc_done\<close> is the effect of \<open>arm_smccc_1_1_smc\<close> on the state.\<close>

lemma arm_smccc_1_1_smc_done:
  "arm_smccc_1_1_smc func_id x1 x2 x3 s =
     (reply_res (spmd s 0), smc_done (SMC func_id x1 x2 x3) s)"
  by (simp add: arm_smccc_1_1_smc_def smc_done_def)

lemma ffa_host_share_ranges_all:
  assumes "fst (u_ffa_host_share_ranges K ranges (unat nranges) s) = unat nranges"
  shows "ffa_host_share_ranges K ranges nranges s =
           (0, s\<lparr>ownership := mark (ranges_pages K (map ranges [0..<unat nranges]))
                                SHARED_DOWNSTREAM (ownership s),
                  trace := trace s @ share_events K (map ranges [0..<unat nranges])\<rparr>) \<and>
         disjoint_ranges K (map ranges [0..<unat nranges]) \<and>
         (\<forall>p \<in> ranges_pages K (map ranges [0..<unat nranges]). ownership s p = HOST_ONLY)"
proof -
  obtain s1 where w: "share_ranges_loop K (map ranges [0..<unat nranges]) s = (unat nranges, s1)"
    using assms by (cases "share_ranges_loop K (map ranges [0..<unat nranges]) s")
      (simp add: u_ffa_host_share_ranges_def)
  from share_ranges_loop_result [OF w] w show ?thesis
    by (simp add: ffa_host_share_ranges_def u_ffa_host_share_ranges_def)
qed

lemma ffa_host_unshare_ranges_all:
  assumes "disjoint_ranges K (map ranges [0..<unat nranges])"
    and "\<forall>p \<in> ranges_pages K (map ranges [0..<unat nranges]). ownership s p = SHARED_DOWNSTREAM"
  shows "ffa_host_unshare_ranges K ranges nranges s =
           (0, s\<lparr>ownership := mark (ranges_pages K (map ranges [0..<unat nranges]))
                                HOST_ONLY (ownership s),
                  trace := trace s @ unshare_events K (map ranges [0..<unat nranges])\<rparr>)"
  using unshare_ranges_loop_all [OF assms]
  by (simp add: ffa_host_unshare_ranges_def u_ffa_host_unshare_ranges_def)

lemma ffa_call_unsupported_iff:
  "ffa_call_unsupported K f \<longleftrightarrow> f \<in> set (unsupported_ids K)"
  by (auto simp: ffa_call_unsupported_def unsupported_ids_def)

lemma do_ffa_features_unsupported:
  "FFA_RET_NOT_SUPPORTED K \<noteq> FFA_RET_SUCCESS K \<Longrightarrow>
   ffa_call_unsupported K (ucast (features_id ctxt)) \<Longrightarrow>
   do_ffa_features K ctxt = Some (ffa_error K (FFA_RET_NOT_SUPPORTED K))"
  by (simp add: do_ffa_features_def Let_def features_id_def ffa_to_smccc_res_prop_def ffa_error_def)

lemma ffa_to_smccc_res_success:
  "FFA_RET_SUCCESS K = 0 \<Longrightarrow> ffa_to_smccc_res K 0 = \<lparr>a0 = FFA_SUCCESS K, a1 = 0, a2 = 0, a3 = 0\<rparr>"
  by (simp add: ffa_to_smccc_res_def ffa_to_smccc_res_prop_def)

lemma a0_ffa_error [simp]: "a0 (ffa_error K c) = FFA_ERROR K"
  by (simp add: ffa_error_def ffa_to_smccc_error_def)

text \<open>The paths of a map request that passes the checks and finds no mapping.\<close>

lemma rxtx_map_paths:
  assumes ok: "ffa_ret_codes_ok K"
    and args: "rxtx_map_args_ok K ctxt"
    and tx0: "host_kvm_ffa_tx s = 0"
  shows "do_ffa_rxtx_map K ctxt s =
    (if rxtx_map_ret K s \<noteq> 0
     then (ffa_error K (rxtx_map_ret K s), smc_done (rxtx_map_event K ctxt) s)
     else if ownership s (unat (tx_pfn K ctxt)) \<noteq> HOST_ONLY
     then (ffa_error K (FFA_RET_INVALID_PARAMETERS K),
           smc_done (rxtx_unmap_event K)
             ((smc_done (rxtx_map_event K ctxt) s)
                \<lparr>trace := trace s @ [rxtx_map_event K ctxt, HOST_SHARE_HYP (tx_pfn K ctxt)]\<rparr>))
     else if unat (rx_pfn K ctxt) = unat (tx_pfn K ctxt) \<or>
             ownership s (unat (rx_pfn K ctxt)) \<noteq> HOST_ONLY
     then (ffa_error K (FFA_RET_INVALID_PARAMETERS K),
           smc_done (rxtx_unmap_event K)
             ((smc_done (rxtx_map_event K ctxt) s)
                \<lparr>trace := trace s @ [rxtx_map_event K ctxt, HOST_SHARE_HYP (tx_pfn K ctxt),
                                      HOST_SHARE_HYP (rx_pfn K ctxt),
                                      HOST_UNSHARE_HYP (tx_pfn K ctxt)]\<rparr>))
     else (\<lparr>a0 = FFA_SUCCESS K, a1 = 0, a2 = 0, a3 = 0\<rparr>,
           (smc_done (rxtx_map_event K ctxt) s)
             \<lparr>host_kvm_ffa_tx := hyp_phys_to_virt K (cpu_reg ctxt 1),
              host_kvm_ffa_rx := hyp_phys_to_virt K (cpu_reg ctxt 2),
              ownership := mark {unat (tx_pfn K ctxt), unat (rx_pfn K ctxt)}
                             GRANTED_PRIVILEGED (ownership s),
              trace := trace s @ [rxtx_map_event K ctxt, HOST_SHARE_HYP (tx_pfn K ctxt),
                                  HOST_SHARE_HYP (rx_pfn K ctxt)]\<rparr>))"
proof -
  let ?ptx = "hyp_phys_to_pfn K (cpu_reg ctxt (Suc 0))"
  let ?prx = "hyp_phys_to_pfn K (cpu_reg ctxt 2)"
  let ?s1 = "smc_done (rxtx_map_event K ctxt) s"
  have ptx: "tx_pfn K ctxt = ?ptx" and prx: "rx_pfn K ctxt = ?prx"
    by (simp_all add: tx_pfn_def rx_pfn_def)
  have m: "spmd_map_ffa_buffers K (ucast (ucast (cpu_reg ctxt 3) :: u32)) s = (rxtx_map_ret K s, ?s1)"
    by (simp add: spmd_map_ffa_buffers_def arm_smccc_1_1_smc_def smc_done_def
        rxtx_map_event_def rxtx_map_ret_def)
  have un: "\<And>t. snd (spmd_unmap_ffa_buffers K t) = smc_done (rxtx_unmap_event K) t"
    by (simp add: spmd_unmap_ffa_buffers_def arm_smccc_1_1_smc_def smc_done_def rxtx_unmap_event_def)
  have own1: "ownership ?s1 = ownership s" and tr1: "trace ?s1 = trace s @ [rxtx_map_event K ctxt]"
    by (simp_all add: smc_done_def)
  from args have a:
    "((ucast (ucast (cpu_reg ctxt 3) :: u32) :: u64) \<noteq>
        (KVM_FFA_MBOX_NR_PAGES K * PAGE_SIZE K) div ucast (FFA_PAGE_SIZE K)) = False"
    "PAGE_ALIGNED K (cpu_reg ctxt (Suc 0))" "PAGE_ALIGNED K (cpu_reg ctxt 2)"
    by (simp_all add: rxtx_map_args_ok_def)
  note codes = ffa_ret_codes_okD [OF ok]
  show ?thesis
  proof (cases "rxtx_map_ret K s \<noteq> 0")
    case True
    with codes(1) tx0 show ?thesis
      by (simp add: do_ffa_rxtx_map_def Let_def a m ffa_to_smccc_res_error)
  next
    case ret0: False
    show ?thesis
    proof (cases "ownership s (unat ?ptx) = HOST_ONLY")
      case False
      then have sh_tx: "pkvm_host_share_hyp ?ptx ?s1 =
          (Fail, ?s1\<lparr>trace := trace s @ [rxtx_map_event K ctxt, HOST_SHARE_HYP ?ptx]\<rparr>)"
        by (simp add: pkvm_host_share_hyp_def own1 tr1)
      from False ret0 codes tx0 show ?thesis
        by (simp add: do_ffa_rxtx_map_def Let_def a m sh_tx un ptx prx ffa_to_smccc_res_error)
    next
      case tx_host: True
      define s2 where "s2 = ?s1\<lparr>ownership := mark {unat ?ptx} GRANTED_PRIVILEGED (ownership s),
                               trace := trace s @ [rxtx_map_event K ctxt, HOST_SHARE_HYP ?ptx]\<rparr>"
      have sh_tx: "pkvm_host_share_hyp ?ptx ?s1 = (Ok, s2)"
        using tx_host by (simp add: pkvm_host_share_hyp_def s2_def own1 tr1)
      show ?thesis
      proof (cases "unat ?prx = unat ?ptx \<or> ownership s (unat ?prx) \<noteq> HOST_ONLY")
        case True
        then have "ownership s2 (unat ?prx) \<noteq> HOST_ONLY"
          by (auto simp: s2_def mark_def)
        then have sh_rx: "pkvm_host_share_hyp ?prx s2 =
            (Fail, s2\<lparr>trace := trace s2 @ [HOST_SHARE_HYP ?prx]\<rparr>)"
          by (simp add: pkvm_host_share_hyp_def)
        have "mark {unat ?ptx} HOST_ONLY (mark {unat ?ptx} GRANTED_PRIVILEGED (ownership s)) =
                ownership s"
          using tx_host by (auto simp: mark_def fun_eq_iff)
        then have un_tx: "snd (pkvm_host_unshare_hyp ?ptx (s2\<lparr>trace := trace s2 @ [HOST_SHARE_HYP ?prx]\<rparr>)) =
            ?s1\<lparr>trace := trace s @ [rxtx_map_event K ctxt, HOST_SHARE_HYP ?ptx,
                                           HOST_SHARE_HYP ?prx, HOST_UNSHARE_HYP ?ptx]\<rparr>"
          by (simp add: pkvm_host_unshare_hyp_def s2_def mark_def [of "{unat ?ptx}" GRANTED_PRIVILEGED]
              smc_done_def)
        from True ret0 tx_host codes tx0 show ?thesis
          by (simp add: do_ffa_rxtx_map_def Let_def a m sh_tx sh_rx un_tx un ptx prx
              ffa_to_smccc_res_error)
      next
        case False
        then have "ownership s2 (unat ?prx) = HOST_ONLY"
          by (auto simp: s2_def mark_def)
        moreover have "mark {unat ?prx} GRANTED_PRIVILEGED (mark {unat ?ptx} GRANTED_PRIVILEGED (ownership s)) =
              mark {unat ?ptx, unat ?prx} GRANTED_PRIVILEGED (ownership s)"
          by (auto simp: mark_def fun_eq_iff)
        ultimately have sh_rx: "pkvm_host_share_hyp ?prx s2 =
            (Ok, ?s1\<lparr>ownership := mark {unat ?ptx, unat ?prx} GRANTED_PRIVILEGED (ownership s),
                     trace := trace s @ [rxtx_map_event K ctxt, HOST_SHARE_HYP ?ptx, HOST_SHARE_HYP ?prx]\<rparr>)"
          by (simp add: pkvm_host_share_hyp_def s2_def smc_done_def)
        from False ret0 tx_host codes(1) tx0 show ?thesis
          by (simp add: do_ffa_rxtx_map_def Let_def a m sh_tx sh_rx ptx prx ffa_to_smccc_res_success)
      qed
    qed
  qed
qed

lemma arm64_ret_codes_ok: "ffa_ret_codes_ok arm64_consts"
  by (simp add: ffa_ret_codes_ok_def arm64_consts_def)

lemma arm64_unsupported_ids_ok: "unsupported_ids_ok arm64_consts"
  by (simp add: unsupported_ids_ok_def unsupported_ids_def dispatched_ids_def is_ffa_call_def
      arm64_consts_def)


section \<open>Ownership transitions\<close>

text \<open>
  Claim C1. When the forward walk of \<^verbatim>\<open>__ffa_host_share_ranges\<close> stops at index \<open>k\<close>
  below the number of ranges, \<open>ffa_host_share_ranges\<close> returns \<open>FFA_RET_DENIED\<close>, it has
  called the ownership table to share the ranges 0 to \<open>k\<close> (the last call failing) and
  then to unshare the ranges 0 to \<open>k - 1\<close> in the same order, and the state it leaves is
  the state before the call but for the record of these calls: the ownership record is
  as it was. The same holds of \<open>ffa_host_unshare_ranges\<close> with sharing and unsharing
  exchanged. The index at which the walk stops is the first range that the ownership
  table refuses (\<open>share_ranges_loop_stops\<close>). The \<^verbatim>\<open>WARN_ON\<close> of the source tests the
  count that the rollback returns, so it reports whenever \<open>k\<close> is not 0.
\<close>

theorem ffa_host_ranges_rollback:
  "(fst (u_ffa_host_share_ranges K ranges (unat nranges) s) = k \<and> k \<noteq> unat nranges \<longrightarrow>
      k < unat nranges \<and>
      ffa_host_share_ranges K ranges nranges s =
        (FFA_RET_DENIED K,
         WARN_ON (k \<noteq> 0)
           (s\<lparr>trace := trace s @ share_events K (map ranges [0..<Suc k])
                                @ unshare_events K (map ranges [0..<k])\<rparr>)) \<and>
      ownership (snd (ffa_host_share_ranges K ranges nranges s)) = ownership s) \<and>
   (fst (u_ffa_host_unshare_ranges K ranges (unat nranges) s) = k \<and> k \<noteq> unat nranges \<longrightarrow>
      k < unat nranges \<and>
      ffa_host_unshare_ranges K ranges nranges s =
        (FFA_RET_DENIED K,
         WARN_ON (k \<noteq> 0)
           (s\<lparr>trace := trace s @ unshare_events K (map ranges [0..<Suc k])
                                @ share_events K (map ranges [0..<k])\<rparr>)) \<and>
      ownership (snd (ffa_host_unshare_ranges K ranges nranges s)) = ownership s)"
proof (intro conjI impI)
  assume h: "fst (u_ffa_host_share_ranges K ranges (unat nranges) s) = k \<and> k \<noteq> unat nranges"
  obtain s1 where w: "share_ranges_loop K (map ranges [0..<unat nranges]) s = (k, s1)"
    using h by (cases "share_ranges_loop K (map ranges [0..<unat nranges]) s")
      (simp add: u_ffa_host_share_ranges_def)
  from share_ranges_loop_result [OF w] h show k: "k < unat nranges"
    by simp
  from share_then_unshare [OF w] k
  have "unshare_ranges_loop K (map ranges [0..<k]) s1 =
          (k, s\<lparr>trace := trace s @ share_events K (map ranges [0..<Suc k])
                                 @ unshare_events K (map ranges [0..<k])\<rparr>)"
    by (simp add: map_upt_take del: upt_Suc)
  with w h show r: "ffa_host_share_ranges K ranges nranges s =
        (FFA_RET_DENIED K,
         WARN_ON (k \<noteq> 0)
           (s\<lparr>trace := trace s @ share_events K (map ranges [0..<Suc k])
                                @ unshare_events K (map ranges [0..<k])\<rparr>))"
    by (simp add: ffa_host_share_ranges_def u_ffa_host_share_ranges_def
        u_ffa_host_unshare_ranges_def del: upt_Suc)
  show "ownership (snd (ffa_host_share_ranges K ranges nranges s)) = ownership s"
    by (simp add: r WARN_ON_def)
next
  assume h: "fst (u_ffa_host_unshare_ranges K ranges (unat nranges) s) = k \<and> k \<noteq> unat nranges"
  obtain s1 where w: "unshare_ranges_loop K (map ranges [0..<unat nranges]) s = (k, s1)"
    using h by (cases "unshare_ranges_loop K (map ranges [0..<unat nranges]) s")
      (simp add: u_ffa_host_unshare_ranges_def)
  from unshare_ranges_loop_result [OF w] h show k: "k < unat nranges"
    by simp
  from unshare_then_share [OF w] k
  have "share_ranges_loop K (map ranges [0..<k]) s1 =
          (k, s\<lparr>trace := trace s @ unshare_events K (map ranges [0..<Suc k])
                                 @ share_events K (map ranges [0..<k])\<rparr>)"
    by (simp add: map_upt_take del: upt_Suc)
  with w h show r: "ffa_host_unshare_ranges K ranges nranges s =
        (FFA_RET_DENIED K,
         WARN_ON (k \<noteq> 0)
           (s\<lparr>trace := trace s @ unshare_events K (map ranges [0..<Suc k])
                                @ share_events K (map ranges [0..<k])\<rparr>))"
    by (simp add: ffa_host_unshare_ranges_def u_ffa_host_share_ranges_def
        u_ffa_host_unshare_ranges_def del: upt_Suc)
  show "ownership (snd (ffa_host_unshare_ranges K ranges nranges s)) = ownership s"
    by (simp add: r WARN_ON_def)
qed

text \<open>With the second range already shared, sharing the two example ranges is rolled
  back after the first; with only the first range shared, so is unsharing them.\<close>

theorem ffa_host_ranges_rollback_witness:
  "fst (ffa_host_share_ranges arm64_consts ex_ranges 2
          (ex_state (ex_own [4]) (ex_reply 0 0 0))) = FFA_RET_DENIED arm64_consts \<and>
   ownership (snd (ffa_host_share_ranges arm64_consts ex_ranges 2
          (ex_state (ex_own [4]) (ex_reply 0 0 0)))) =
     ownership (ex_state (ex_own [4]) (ex_reply 0 0 0)) \<and>
   fst (ffa_host_unshare_ranges arm64_consts ex_ranges 2
          (ex_state (ex_own [1]) (ex_reply 0 0 0))) = FFA_RET_DENIED arm64_consts \<and>
   ownership (snd (ffa_host_unshare_ranges arm64_consts ex_ranges 2
          (ex_state (ex_own [1]) (ex_reply 0 0 0)))) =
     ownership (ex_state (ex_own [1]) (ex_reply 0 0 0))"
proof -
  let ?S = "ex_state (ex_own [4]) (ex_reply 0 0 0)"
  let ?T = "ex_state (ex_own [1]) (ex_reply 0 0 0)"
  have h1: "fst (u_ffa_host_share_ranges arm64_consts ex_ranges (unat (2 :: u32)) ?S) = 1 \<and>
            1 \<noteq> unat (2 :: u32)"
    by code_simp
  have h2: "fst (u_ffa_host_unshare_ranges arm64_consts ex_ranges (unat (2 :: u32)) ?T) = 1 \<and>
            1 \<noteq> unat (2 :: u32)"
    by code_simp
  note a = ffa_host_ranges_rollback [of arm64_consts ex_ranges 2 ?S 1,
      THEN conjunct1, THEN mp, OF h1, THEN conjunct2]
  note b = ffa_host_ranges_rollback [of arm64_consts ex_ranges 2 ?T 1,
      THEN conjunct2, THEN mp, OF h2, THEN conjunct2]
  have "fst (ffa_host_share_ranges arm64_consts ex_ranges 2 ?S) = FFA_RET_DENIED arm64_consts"
    by (simp only: a [THEN conjunct1] fst_conv)
  moreover have "fst (ffa_host_unshare_ranges arm64_consts ex_ranges 2 ?T) = FFA_RET_DENIED arm64_consts"
    by (simp only: b [THEN conjunct1] fst_conv)
  ultimately show ?thesis
    using a [THEN conjunct2] b [THEN conjunct2] by (intro conjI)
qed

section \<open>Share and lend\<close>

text \<open>
  Claim C2. A share or lend request that passes every check and whose ranges are all
  shared locally is forwarded with its function identifier, length and fragment length.
  If the downstream authority does not answer \<open>FFA_SUCCESS\<close>, the proxy unshares the same
  ranges in the same order, the ownership record is as before the request, and the
  result is the downstream authority's; if it answers \<open>FFA_SUCCESS\<close>, the pages of the
  ranges stay shared and the result is the downstream authority's.
\<close>

theorem xfer_forwarded:
  assumes "xfer_regs_ok K ctxt"
    and "host_kvm_ffa_tx s \<noteq> 0"
    and "xfer_desc_ok K (xfer_fraglen ctxt) (host_tx_mbox s)"
    and "fst (u_ffa_host_share_ranges K (constituents (xfer_reg s))
                (unat (addr_range_cnt (xfer_reg s))) s) = unat (addr_range_cnt (xfer_reg s))"
  shows "(a0 (reply_res (spmd s 0)) \<noteq> FFA_SUCCESS K \<longrightarrow>
            do_ffa_mem_xfer K func_id res ctxt s =
              (reply_res (spmd s 0),
               (smc_done (SMC func_id (ucast (xfer_len ctxt)) (ucast (xfer_fraglen ctxt)) 0) s)
                 \<lparr>trace := trace s @ share_events K (xfer_ranges s) @
                     [SMC func_id (ucast (xfer_len ctxt)) (ucast (xfer_fraglen ctxt)) 0] @
                     unshare_events K (xfer_ranges s)\<rparr>)) \<and>
         (a0 (reply_res (spmd s 0)) = FFA_SUCCESS K \<longrightarrow>
            do_ffa_mem_xfer K func_id res ctxt s =
              (reply_res (spmd s 0),
               (smc_done (SMC func_id (ucast (xfer_len ctxt)) (ucast (xfer_fraglen ctxt)) 0) s)
                 \<lparr>ownership := mark (ranges_pages K (xfer_ranges s)) SHARED_DOWNSTREAM (ownership s),
                  trace := trace s @ share_events K (xfer_ranges s) @
                     [SMC func_id (ucast (xfer_len ctxt)) (ucast (xfer_fraglen ctxt)) 0]\<rparr>))"
proof -
  let ?reg = "xfer_reg s"
  let ?rs = "xfer_ranges s"
  let ?e = "SMC func_id (ucast (xfer_len ctxt)) (ucast (xfer_fraglen ctxt)) 0"
  define s1 where "s1 = s\<lparr>ownership := mark (ranges_pages K ?rs) SHARED_DOWNSTREAM (ownership s),
                          trace := trace s @ share_events K ?rs\<rparr>"
  from ffa_host_share_ranges_all [OF assms(4)] have
    sh: "ffa_host_share_ranges K (constituents ?reg) (addr_range_cnt ?reg) s = (0, s1)" and
    dj: "disjoint_ranges K ?rs" and
    own: "\<forall>p \<in> ranges_pages K ?rs. ownership s p = HOST_ONLY"
    by (simp_all add: s1_def xfer_ranges_def)
  define s2 where "s2 = smc_done ?e s1"
  have smc: "spmd_mem_xfer func_id (xfer_len ctxt) (xfer_fraglen ctxt) s1 = (reply_res (spmd s 0), s2)"
    by (simp add: spmd_mem_xfer_def arm_smccc_1_1_smc_def s2_def smc_done_def s1_def)
  have "\<forall>p \<in> ranges_pages K ?rs. ownership s2 p = SHARED_DOWNSTREAM"
    by (simp add: s2_def smc_done_def s1_def mark_def)
  from ffa_host_unshare_ranges_all [OF dj [unfolded xfer_ranges_def] this [unfolded xfer_ranges_def]]
  have un: "ffa_host_unshare_ranges K (constituents ?reg) (addr_range_cnt ?reg) s2 =
              (0, s2\<lparr>ownership := mark (ranges_pages K ?rs) HOST_ONLY (ownership s2),
                      trace := trace s2 @ unshare_events K ?rs\<rparr>)"
    by (simp add: xfer_ranges_def)
  have restore: "mark (ranges_pages K ?rs) HOST_ONLY (ownership s2) = ownership s"
    using own by (simp add: s2_def smc_done_def s1_def mark_restore)
  have regs:
    "cpu_reg ctxt 3 = 0"
    "(ucast (cpu_reg ctxt 4) :: u32) = 0"
    "((ucast (cpu_reg ctxt (Suc 0)) :: u32) < ucast (cpu_reg ctxt 2)) = False"
    "((ucast (cpu_reg ctxt 2) :: u32) < ucast (cpu_reg ctxt (Suc 0))) = False"
    "(KVM_FFA_MBOX_NR_PAGES K * PAGE_SIZE K < ucast (ucast (cpu_reg ctxt 2) :: u32)) = False"
    "((ucast (ucast (cpu_reg ctxt 2) :: u32) :: u64) <
        sizeof_ffa_mem_region K + sizeof_ffa_mem_region_attributes K) = False"
    using assms(1) by (auto simp: xfer_regs_ok_def xfer_fraglen_def xfer_len_def)
  have desc:
    "ep_mem_access0_composite_off (host_tx_mbox s) \<noteq> 0"
    "ep_count (host_tx_mbox s) = 1"
    "sender_id (host_tx_mbox s) = HOST_FFA_ID"
    "((ucast (ucast (cpu_reg ctxt 2) :: u32) :: u64) <
        ucast (ep_mem_access0_composite_off (host_tx_mbox s)) +
        sizeof_ffa_composite_mem_region K) = False"
    "((ucast (ucast (cpu_reg ctxt 2) :: u32) :: u64) <
        ucast (ep_mem_access0_composite_off (host_tx_mbox s)) +
        sizeof_ffa_composite_mem_region K +
        ucast (addr_range_cnt (composite_at (host_tx_mbox s)
                 (ep_mem_access0_composite_off (host_tx_mbox s)))) *
        sizeof_ffa_mem_region_addr_range K) = False"
    using assms(3) by (auto simp: xfer_desc_ok_def xfer_fraglen_def)
  have pre: "do_ffa_mem_xfer K func_id res ctxt s =
      (if a0 (reply_res (spmd s 0)) \<noteq> FFA_SUCCESS K
       then (reply_res (spmd s 0),
             WARN_ON False (s2\<lparr>ownership := mark (ranges_pages K ?rs) HOST_ONLY (ownership s2),
                               trace := trace s2 @ unshare_events K ?rs\<rparr>))
       else (reply_res (spmd s 0), s2))"
    using assms(2) sh smc un
    by (simp add: do_ffa_mem_xfer_def Let_def regs desc xfer_fraglen_def xfer_len_def xfer_reg_def)
  show ?thesis
    unfolding pre restore
    by (simp add: WARN_ON_def s2_def smc_done_def s1_def)
qed

text \<open>A lend of the two example ranges, refused and then accepted by the downstream
  authority.\<close>

theorem xfer_forwarded_witness:
  "fst (do_ffa_mem_xfer arm64_consts (FFA_FN64_MEM_LEND arm64_consts) ex_res
          (ex_ctxt [0xC4000072, 96, 96, 0, 0])
          (ex_state (ex_own []) (ex_reply 0x84000060 0 0xFFFFFFFA))) =
     \<lparr>a0 = 0x84000060, a1 = 0, a2 = 0xFFFFFFFA, a3 = 0\<rparr> \<and>
   ownership (snd (do_ffa_mem_xfer arm64_consts (FFA_FN64_MEM_LEND arm64_consts) ex_res
          (ex_ctxt [0xC4000072, 96, 96, 0, 0])
          (ex_state (ex_own []) (ex_reply 0x84000060 0 0xFFFFFFFA)))) = ex_own [] \<and>
   fst (do_ffa_mem_xfer arm64_consts (FFA_FN64_MEM_LEND arm64_consts) ex_res
          (ex_ctxt [0xC4000072, 96, 96, 0, 0])
          (ex_state (ex_own []) (ex_reply 0x84000061 0 0x1234))) =
     \<lparr>a0 = 0x84000061, a1 = 0, a2 = 0x1234, a3 = 0\<rparr> \<and>
   ownership (snd (do_ffa_mem_xfer arm64_consts (FFA_FN64_MEM_LEND arm64_consts) ex_res
          (ex_ctxt [0xC4000072, 96, 96, 0, 0])
          (ex_state (ex_own []) (ex_reply 0x84000061 0 0x1234)))) 3 = SHARED_DOWNSTREAM"
proof -
  let ?C = "ex_ctxt [0xC4000072, 96, 96, 0, 0]"
  let ?S1 = "ex_state (ex_own []) (ex_reply 0x84000060 0 0xFFFFFFFA)"
  let ?S2 = "ex_state (ex_own []) (ex_reply 0x84000061 0 0x1234)"
  have h1: "xfer_regs_ok arm64_consts ?C"
    by code_simp
  have h2: "host_kvm_ffa_tx ?S1 \<noteq> 0" "host_kvm_ffa_tx ?S2 \<noteq> 0"
    by (simp_all add: ex_state_def)
  have h3: "xfer_desc_ok arm64_consts (xfer_fraglen ?C) (host_tx_mbox ?S1)"
    "xfer_desc_ok arm64_consts (xfer_fraglen ?C) (host_tx_mbox ?S2)"
    by code_simp+
  have h4: "fst (u_ffa_host_share_ranges arm64_consts (constituents (xfer_reg ?S1))
                (unat (addr_range_cnt (xfer_reg ?S1))) ?S1) = unat (addr_range_cnt (xfer_reg ?S1))"
    "fst (u_ffa_host_share_ranges arm64_consts (constituents (xfer_reg ?S2))
                (unat (addr_range_cnt (xfer_reg ?S2))) ?S2) = unat (addr_range_cnt (xfer_reg ?S2))"
    by code_simp+
  have pg: "3 \<in> ranges_pages arm64_consts (xfer_ranges ?S2)"
    by code_simp
  from xfer_forwarded [OF h1 h2(1) h3(1) h4(1), of "FFA_FN64_MEM_LEND arm64_consts" ex_res]
       xfer_forwarded [OF h1 h2(2) h3(2) h4(2), of "FFA_FN64_MEM_LEND arm64_consts" ex_res]
       pg
  show ?thesis
    by (simp add: ex_state_def ex_reply_def arm64_consts_def smc_done_def mark_def)
qed

text \<open>
  Claim C3, as stated, has a request whose fragment length exceeds its total length
  answered with \<open>FFA_RET_ABORTED\<close>. The source answers \<open>FFA_RET_INVALID_PARAMETERS\<close>: a
  share request with total length 96 and fragment length 112.
\<close>

theorem xfer_fraglen_exceeds_len_counterexample:
  "fst (do_ffa_mem_xfer arm64_consts (FFA_FN64_MEM_SHARE arm64_consts) ex_res
          (ex_ctxt [0xC4000073, 96, 112, 0, 0])
          (ex_state (ex_own []) (ex_reply 0x84000061 0 0x1234))) =
     ffa_error arm64_consts (FFA_RET_INVALID_PARAMETERS arm64_consts) \<and>
   ffa_error arm64_consts (FFA_RET_INVALID_PARAMETERS arm64_consts) \<noteq>
     ffa_error arm64_consts (FFA_RET_ABORTED arm64_consts)"
  by (simp add: do_ffa_mem_xfer_def Let_def ex_ctxt_def cpu_reg_def ffa_error_def
      ffa_to_smccc_res_def ffa_to_smccc_res_prop_def ffa_to_smccc_error_def arm64_consts_def)

text \<open>
  Claim C3, amended. A share or lend request whose fragment length is greater than its
  total length is answered with \<open>FFA_RET_INVALID_PARAMETERS\<close>, and the state is untouched.
\<close>

theorem xfer_fraglen_exceeds_len:
  assumes "ffa_ret_codes_ok K"
    and "(ucast (cpu_reg ctxt 2) :: u32) > ucast (cpu_reg ctxt 1)"
  shows "do_ffa_mem_xfer K func_id res ctxt s = (ffa_error K (FFA_RET_INVALID_PARAMETERS K), s)"
  using assms(2) ffa_ret_codes_okD [OF assms(1)]
  by (simp add: do_ffa_mem_xfer_def Let_def ffa_to_smccc_res_error)

theorem xfer_fraglen_exceeds_len_witness:
  "do_ffa_mem_xfer arm64_consts (FFA_FN64_MEM_SHARE arm64_consts) ex_res
          (ex_ctxt [0xC4000073, 96, 112, 0, 0])
          (ex_state (ex_own []) (ex_reply 0x84000061 0 0x1234)) =
     (ffa_error arm64_consts (FFA_RET_INVALID_PARAMETERS arm64_consts),
      ex_state (ex_own []) (ex_reply 0x84000061 0 0x1234))"
proof -
  have h: "(ucast (cpu_reg (ex_ctxt [0xC4000073, 96, 112, 0, 0]) 2) :: u32) >
           ucast (cpu_reg (ex_ctxt [0xC4000073, 96, 112, 0, 0]) 1)"
    by (simp add: ex_ctxt_def cpu_reg_def)
  show ?thesis
    by (rule xfer_fraglen_exceeds_len [OF arm64_ret_codes_ok h])
qed

text \<open>
  Claim C4. A share or lend request whose reserved registers are 0, whose fragment fits
  the mailbox and whose fragment length is less than its total length is answered with
  \<open>FFA_RET_ABORTED\<close>, which is not the answer \<open>FFA_RET_INVALID_PARAMETERS\<close>, and the state
  (the ownership record with it) is untouched.
\<close>

theorem xfer_fragmented_aborted:
  assumes "ffa_ret_codes_ok K"
    and "cpu_reg ctxt 3 = 0"
    and "(ucast (cpu_reg ctxt 4) :: u32) = 0"
    and "(ucast (ucast (cpu_reg ctxt 2) :: u32) :: u64) \<le> KVM_FFA_MBOX_NR_PAGES K * PAGE_SIZE K"
    and "(ucast (cpu_reg ctxt 2) :: u32) < ucast (cpu_reg ctxt 1)"
  shows "do_ffa_mem_xfer K func_id res ctxt s = (ffa_error K (FFA_RET_ABORTED K), s) \<and>
         ffa_error K (FFA_RET_ABORTED K) \<noteq> ffa_error K (FFA_RET_INVALID_PARAMETERS K)"
  using assms(2-) ffa_ret_codes_okD [OF assms(1)]
  by (simp add: do_ffa_mem_xfer_def Let_def ffa_to_smccc_res_error ffa_error_inj not_less)

text \<open>A share request with fragment length 10 and total length 20.\<close>

theorem xfer_fragmented_aborted_witness:
  "do_ffa_mem_xfer arm64_consts (FFA_FN64_MEM_SHARE arm64_consts) ex_res
          (ex_ctxt [0xC4000073, 20, 10, 0, 0])
          (ex_state (ex_own []) (ex_reply 0x84000061 0 0x1234)) =
     (ffa_error arm64_consts (FFA_RET_ABORTED arm64_consts),
      ex_state (ex_own []) (ex_reply 0x84000061 0 0x1234)) \<and>
   ffa_error arm64_consts (FFA_RET_ABORTED arm64_consts) \<noteq>
     ffa_error arm64_consts (FFA_RET_INVALID_PARAMETERS arm64_consts)"
proof -
  let ?C = "ex_ctxt [0xC4000073, 20, 10, 0, 0]"
  have h: "cpu_reg ?C 3 = 0" "(ucast (cpu_reg ?C 4) :: u32) = 0"
    "(ucast (ucast (cpu_reg ?C 2) :: u32) :: u64) \<le>
       KVM_FFA_MBOX_NR_PAGES arm64_consts * PAGE_SIZE arm64_consts"
    "(ucast (cpu_reg ?C 2) :: u32) < ucast (cpu_reg ?C 1)"
    by (simp_all add: ex_ctxt_def cpu_reg_def arm64_consts_def)
  show ?thesis
    by (rule xfer_fragmented_aborted [OF arm64_ret_codes_ok h])
qed

text \<open>
  Claim C5. When the host's descriptor has a receiver count other than 1, a sender other
  than the host, a composite offset of 0, or a composite region or range array that does
  not fit the fragment, a share or lend request leaves the state untouched (no call to
  the ownership table or to the downstream authority is made) and, unless it declares a
  fragment shorter than its total length (such a request is refused before the
  descriptor is staged), it is answered with \<open>FFA_RET_INVALID_PARAMETERS\<close>.
\<close>

theorem xfer_bad_descriptor:
  assumes "ffa_ret_codes_ok K"
    and "ep_count (host_tx_mbox s) \<noteq> 1 \<or>
         sender_id (host_tx_mbox s) \<noteq> HOST_FFA_ID \<or>
         ep_mem_access0_composite_off (host_tx_mbox s) = 0 \<or>
         (ucast (xfer_fraglen ctxt) :: u64) <
            ucast (ep_mem_access0_composite_off (host_tx_mbox s)) +
            sizeof_ffa_composite_mem_region K \<or>
         (ucast (xfer_fraglen ctxt) :: u64) <
            ucast (ep_mem_access0_composite_off (host_tx_mbox s)) +
            sizeof_ffa_composite_mem_region K +
            ucast (addr_range_cnt (xfer_reg s)) * sizeof_ffa_mem_region_addr_range K"
  shows "snd (do_ffa_mem_xfer K func_id res ctxt s) = s \<and>
         (\<not> xfer_fraglen ctxt < xfer_len ctxt \<longrightarrow>
            fst (do_ffa_mem_xfer K func_id res ctxt s) =
              ffa_error K (FFA_RET_INVALID_PARAMETERS K))"
  using assms(2) ffa_ret_codes_okD [OF assms(1)]
  by (auto simp: do_ffa_mem_xfer_def Let_def ffa_to_smccc_res_error
      xfer_fraglen_def xfer_len_def xfer_reg_def)

text \<open>A share request whose descriptor names two receivers.\<close>

theorem xfer_bad_descriptor_witness:
  "snd (do_ffa_mem_xfer arm64_consts (FFA_FN64_MEM_SHARE arm64_consts) ex_res
          (ex_ctxt [0xC4000073, 96, 96, 0, 0])
          ((ex_state (ex_own []) (ex_reply 0x84000061 0 0x1234))
             \<lparr>host_tx_mbox := ex_mbox\<lparr>ep_count := 2\<rparr>\<rparr>)) =
     (ex_state (ex_own []) (ex_reply 0x84000061 0 0x1234))
       \<lparr>host_tx_mbox := ex_mbox\<lparr>ep_count := 2\<rparr>\<rparr> \<and>
   fst (do_ffa_mem_xfer arm64_consts (FFA_FN64_MEM_SHARE arm64_consts) ex_res
          (ex_ctxt [0xC4000073, 96, 96, 0, 0])
          ((ex_state (ex_own []) (ex_reply 0x84000061 0 0x1234))
             \<lparr>host_tx_mbox := ex_mbox\<lparr>ep_count := 2\<rparr>\<rparr>)) =
     ffa_error arm64_consts (FFA_RET_INVALID_PARAMETERS arm64_consts)"
proof -
  let ?C = "ex_ctxt [0xC4000073, 96, 96, 0, 0]"
  let ?S = "(ex_state (ex_own []) (ex_reply 0x84000061 0 0x1234))
             \<lparr>host_tx_mbox := ex_mbox\<lparr>ep_count := 2\<rparr>\<rparr>"
  have h: "ep_count (host_tx_mbox ?S) \<noteq> 1 \<or>
         sender_id (host_tx_mbox ?S) \<noteq> HOST_FFA_ID \<or>
         ep_mem_access0_composite_off (host_tx_mbox ?S) = 0 \<or>
         (ucast (xfer_fraglen ?C) :: u64) <
            ucast (ep_mem_access0_composite_off (host_tx_mbox ?S)) +
            sizeof_ffa_composite_mem_region arm64_consts \<or>
         (ucast (xfer_fraglen ?C) :: u64) <
            ucast (ep_mem_access0_composite_off (host_tx_mbox ?S)) +
            sizeof_ffa_composite_mem_region arm64_consts +
            ucast (addr_range_cnt (xfer_reg ?S)) * sizeof_ffa_mem_region_addr_range arm64_consts"
    by (simp add: ex_state_def)
  have r: "\<not> xfer_fraglen ?C < xfer_len ?C"
    by (simp add: xfer_fraglen_def xfer_len_def ex_ctxt_def cpu_reg_def)
  note t = xfer_bad_descriptor [OF arm64_ret_codes_ok h,
      of "FFA_FN64_MEM_SHARE arm64_consts" ex_res]
  from t [THEN conjunct1] t [THEN conjunct2, THEN mp, OF r] show ?thesis
    by (intro conjI)
qed

section \<open>Reclaim\<close>

text \<open>
  Claim C6. A reclaim sends the retrieve request. If the answer does not carry the
  retrieve-response tag, the result is the downstream authority's answer; if it carries
  the tag and its registers \<open>a1\<close> and \<open>a2\<close> differ, the result is \<open>FFA_RET_ABORTED\<close>. In
  both cases the retrieve request is the only call that was made, and the ownership
  record is untouched.
\<close>

theorem reclaim_retrieve_outcomes:
  assumes "ffa_ret_codes_ok K"
  shows "(a0 (reply_res (spmd s 0)) \<noteq> FFA_MEM_RETRIEVE_RESP K \<longrightarrow>
            do_ffa_mem_reclaim K ctxt s =
              (reply_res (spmd s 0), smc_done (retrieve_req_event K) s)) \<and>
         (a0 (reply_res (spmd s 0)) = FFA_MEM_RETRIEVE_RESP K \<and>
          a1 (reply_res (spmd s 0)) \<noteq> a2 (reply_res (spmd s 0)) \<longrightarrow>
            do_ffa_mem_reclaim K ctxt s =
              (ffa_error K (FFA_RET_ABORTED K), smc_done (retrieve_req_event K) s)) \<and>
         trace (smc_done (retrieve_req_event K) s) = trace s @ [retrieve_req_event K] \<and>
         ownership (smc_done (retrieve_req_event K) s) = ownership s"
  using ffa_ret_codes_okD [OF assms]
  by (simp add: do_ffa_mem_reclaim_def Let_def spmd_retrieve_req_def arm_smccc_1_1_smc_def
      smc_done_def retrieve_req_event_def ffa_to_smccc_res_error)

text \<open>A retrieve response of total length 100 and fragment length 50, and a retrieve
  request refused with an error.\<close>

theorem reclaim_retrieve_outcomes_witness:
  "do_ffa_mem_reclaim arm64_consts (ex_ctxt [0x84000077, 0x1234, 0, 0])
          (ex_state (ex_own [1, 3, 4]) (ex_reply 0x84000075 100 50)) =
     (ffa_error arm64_consts (FFA_RET_ABORTED arm64_consts),
      smc_done (retrieve_req_event arm64_consts)
        (ex_state (ex_own [1, 3, 4]) (ex_reply 0x84000075 100 50))) \<and>
   do_ffa_mem_reclaim arm64_consts (ex_ctxt [0x84000077, 0x1234, 0, 0])
          (ex_state (ex_own [1, 3, 4]) (ex_reply 0x84000060 0 0xFFFFFFFE)) =
     (reply_res (ex_reply 0x84000060 0 0xFFFFFFFE 0),
      smc_done (retrieve_req_event arm64_consts)
        (ex_state (ex_own [1, 3, 4]) (ex_reply 0x84000060 0 0xFFFFFFFE)))"
proof -
  let ?C = "ex_ctxt [0x84000077, 0x1234, 0, 0]"
  let ?S = "ex_state (ex_own [1, 3, 4]) (ex_reply 0x84000075 100 50)"
  let ?T = "ex_state (ex_own [1, 3, 4]) (ex_reply 0x84000060 0 0xFFFFFFFE)"
  have h1: "a0 (reply_res (spmd ?S 0)) = FFA_MEM_RETRIEVE_RESP arm64_consts \<and>
            a1 (reply_res (spmd ?S 0)) \<noteq> a2 (reply_res (spmd ?S 0))"
    by (simp add: ex_state_def ex_reply_def arm64_consts_def)
  have h2: "a0 (reply_res (spmd ?T 0)) \<noteq> FFA_MEM_RETRIEVE_RESP arm64_consts"
    by (simp add: ex_state_def ex_reply_def arm64_consts_def)
  have sp: "spmd ?T 0 = ex_reply 0x84000060 0 0xFFFFFFFE 0"
    by (simp add: ex_state_def)
  note t = reclaim_retrieve_outcomes [OF arm64_ret_codes_ok, of ?S ?C]
  note u = reclaim_retrieve_outcomes [OF arm64_ret_codes_ok, of ?T ?C]
  from t [THEN conjunct2, THEN conjunct1, THEN mp, OF h1]
       u [THEN conjunct1, THEN mp, OF h2, unfolded sp]
  show ?thesis
    by (intro conjI)
qed

section \<open>Buffer mapping\<close>

text \<open>
  Claim C7, as stated, has every map request that finds a mapping answered with
  \<open>FFA_RET_DENIED\<close>. The source checks the page count and the alignment first: with the
  mailboxes mapped, a request for 2 pages is answered with \<open>FFA_RET_INVALID_PARAMETERS\<close>.
\<close>

theorem rxtx_map_counterexample:
  "host_kvm_ffa_tx (ex_state (ex_own []) (ex_reply 0x84000061 0 0)) \<noteq> 0 \<and>
   fst (do_ffa_rxtx_map arm64_consts (ex_ctxt [0xC4000066, 0x5000, 0x6000, 2])
          (ex_state (ex_own []) (ex_reply 0x84000061 0 0))) =
     ffa_error arm64_consts (FFA_RET_INVALID_PARAMETERS arm64_consts) \<and>
   ffa_error arm64_consts (FFA_RET_INVALID_PARAMETERS arm64_consts) \<noteq>
     ffa_error arm64_consts (FFA_RET_DENIED arm64_consts)"
  by (simp add: do_ffa_rxtx_map_def Let_def ex_ctxt_def cpu_reg_def ffa_error_def ex_state_def
      ffa_to_smccc_res_def ffa_to_smccc_res_prop_def ffa_to_smccc_error_def arm64_consts_def)

text \<open>
  Claim C7, amended. A map request whose page count is not the negotiated one or whose
  addresses are not both page-aligned is answered with \<open>FFA_RET_INVALID_PARAMETERS\<close>; one
  that passes these checks and finds a mapping (\<^verbatim>\<open>host_kvm.ffa.tx\<close> is not \<^verbatim>\<open>NULL\<close>) is
  answered with \<open>FFA_RET_DENIED\<close>; both leave the state, the mapping with it, untouched. A
  request succeeds only if it passes the checks, finds no mapping, the downstream
  authority has mapped its side and both pages could be granted. A request that does not
  succeed leaves the ownership record and the recorded mapping as they were: when the
  downstream authority had mapped its side, the grant of the TX page is revoked if it had
  been made and the downstream authority is then asked to unmap.
\<close>

theorem rxtx_map_outcomes:
  assumes "ffa_ret_codes_ok K"
    and "FFA_SUCCESS K \<noteq> FFA_ERROR K"
  shows "(\<not> rxtx_map_args_ok K ctxt \<longrightarrow>
            do_ffa_rxtx_map K ctxt s = (ffa_error K (FFA_RET_INVALID_PARAMETERS K), s)) \<and>
         (rxtx_map_args_ok K ctxt \<and> host_kvm_ffa_tx s \<noteq> 0 \<longrightarrow>
            do_ffa_rxtx_map K ctxt s = (ffa_error K (FFA_RET_DENIED K), s)) \<and>
         (a0 (fst (do_ffa_rxtx_map K ctxt s)) = FFA_SUCCESS K \<longrightarrow>
            rxtx_map_args_ok K ctxt \<and> host_kvm_ffa_tx s = 0 \<and> rxtx_map_ret K s = 0 \<and>
            ownership s (unat (tx_pfn K ctxt)) = HOST_ONLY \<and>
            ownership s (unat (rx_pfn K ctxt)) = HOST_ONLY) \<and>
         (a0 (fst (do_ffa_rxtx_map K ctxt s)) \<noteq> FFA_SUCCESS K \<longrightarrow>
            ownership (snd (do_ffa_rxtx_map K ctxt s)) = ownership s \<and>
            host_kvm_ffa_tx (snd (do_ffa_rxtx_map K ctxt s)) = host_kvm_ffa_tx s \<and>
            host_kvm_ffa_rx (snd (do_ffa_rxtx_map K ctxt s)) = host_kvm_ffa_rx s) \<and>
         (rxtx_map_args_ok K ctxt \<and> host_kvm_ffa_tx s = 0 \<and> rxtx_map_ret K s = 0 \<and>
          a0 (fst (do_ffa_rxtx_map K ctxt s)) \<noteq> FFA_SUCCESS K \<longrightarrow>
            fst (do_ffa_rxtx_map K ctxt s) = ffa_error K (FFA_RET_INVALID_PARAMETERS K) \<and>
            trace (snd (do_ffa_rxtx_map K ctxt s)) =
              trace s @ [rxtx_map_event K ctxt, HOST_SHARE_HYP (tx_pfn K ctxt)] @
              (if ownership s (unat (tx_pfn K ctxt)) = HOST_ONLY
               then [HOST_SHARE_HYP (rx_pfn K ctxt), HOST_UNSHARE_HYP (tx_pfn K ctxt)] else []) @
              [rxtx_unmap_event K])"
proof -
  note codes = ffa_ret_codes_okD [OF assms(1)]
  have bad: "\<not> rxtx_map_args_ok K ctxt \<Longrightarrow>
      do_ffa_rxtx_map K ctxt s = (ffa_error K (FFA_RET_INVALID_PARAMETERS K), s)"
    using codes
    by (auto simp: do_ffa_rxtx_map_def Let_def rxtx_map_args_ok_def ffa_to_smccc_res_error)
  have mapped: "rxtx_map_args_ok K ctxt \<Longrightarrow> host_kvm_ffa_tx s \<noteq> 0 \<Longrightarrow>
      do_ffa_rxtx_map K ctxt s = (ffa_error K (FFA_RET_DENIED K), s)"
    using codes
    by (auto simp: do_ffa_rxtx_map_def Let_def rxtx_map_args_ok_def ffa_to_smccc_res_error)
  show ?thesis
  proof (cases "rxtx_map_args_ok K ctxt \<and> host_kvm_ffa_tx s = 0")
    case False
    with bad mapped assms(2) show ?thesis
      by (cases "rxtx_map_args_ok K ctxt") auto
  next
    case True
    then have args: "rxtx_map_args_ok K ctxt" and tx0: "host_kvm_ffa_tx s = 0"
      by simp_all
    show ?thesis
      using args tx0 assms(2)
      by (simp add: rxtx_map_paths [OF assms(1) args tx0] smc_done_def)
  qed
qed

text \<open>A request for 2 pages, a second request with the mailboxes mapped, a first request
  that succeeds, and one that finds the RX page not host-owned-only.\<close>

theorem rxtx_map_outcomes_witness:
  "do_ffa_rxtx_map arm64_consts (ex_ctxt [0xC4000066, 0x5000, 0x6000, 2])
          (ex_state (ex_own []) (ex_reply 0x84000061 0 0)) =
     (ffa_error arm64_consts (FFA_RET_INVALID_PARAMETERS arm64_consts),
      ex_state (ex_own []) (ex_reply 0x84000061 0 0)) \<and>
   do_ffa_rxtx_map arm64_consts (ex_ctxt [0xC4000066, 0x5000, 0x6000, 1])
          (ex_state (ex_own []) (ex_reply 0x84000061 0 0)) =
     (ffa_error arm64_consts (FFA_RET_DENIED arm64_consts),
      ex_state (ex_own []) (ex_reply 0x84000061 0 0)) \<and>
   host_kvm_ffa_tx (ex_unmapped (ex_own []) (ex_reply 0x84000061 0 0)) = 0 \<and>
   ownership (snd (do_ffa_rxtx_map arm64_consts (ex_ctxt [0xC4000066, 0x5000, 0x6000, 1])
          (ex_unmapped (ex_own [6]) (ex_reply 0x84000061 0 0)))) =
     ownership (ex_unmapped (ex_own [6]) (ex_reply 0x84000061 0 0)) \<and>
   fst (do_ffa_rxtx_map arm64_consts (ex_ctxt [0xC4000066, 0x5000, 0x6000, 1])
          (ex_unmapped (ex_own [6]) (ex_reply 0x84000061 0 0))) =
     ffa_error arm64_consts (FFA_RET_INVALID_PARAMETERS arm64_consts)"
proof -
  let ?bad = "ex_ctxt [0xC4000066, 0x5000, 0x6000, 2]"
  let ?good = "ex_ctxt [0xC4000066, 0x5000, 0x6000, 1]"
  let ?S = "ex_state (ex_own []) (ex_reply 0x84000061 0 0)"
  let ?U = "ex_unmapped (ex_own []) (ex_reply 0x84000061 0 0)"
  let ?V = "ex_unmapped (ex_own [6]) (ex_reply 0x84000061 0 0)"
  have k: "FFA_SUCCESS arm64_consts \<noteq> FFA_ERROR arm64_consts"
    by (simp add: arm64_consts_def)
  have h1: "\<not> rxtx_map_args_ok arm64_consts ?bad"
    by code_simp
  have h2: "rxtx_map_args_ok arm64_consts ?good \<and> host_kvm_ffa_tx ?S \<noteq> 0"
    by code_simp
  have h3: "a0 (fst (do_ffa_rxtx_map arm64_consts ?good ?U)) = FFA_SUCCESS arm64_consts"
    by code_simp
  have h4: "a0 (fst (do_ffa_rxtx_map arm64_consts ?good ?V)) \<noteq> FFA_SUCCESS arm64_consts"
    by code_simp
  have h5: "rxtx_map_args_ok arm64_consts ?good \<and> host_kvm_ffa_tx ?V = 0 \<and>
            rxtx_map_ret arm64_consts ?V = 0 \<and>
            a0 (fst (do_ffa_rxtx_map arm64_consts ?good ?V)) \<noteq> FFA_SUCCESS arm64_consts"
    by code_simp
  note a = rxtx_map_outcomes [OF arm64_ret_codes_ok k, of ?bad ?S]
  note b = rxtx_map_outcomes [OF arm64_ret_codes_ok k, of ?good ?S]
  note c = rxtx_map_outcomes [OF arm64_ret_codes_ok k, of ?good ?U]
  note d = rxtx_map_outcomes [OF arm64_ret_codes_ok k, of ?good ?V]
  from a [THEN conjunct1, THEN mp, OF h1]
    b [THEN conjunct2, THEN conjunct1, THEN mp, OF h2]
    c [THEN conjunct2, THEN conjunct2, THEN conjunct1, THEN mp, OF h3]
    d [THEN conjunct2, THEN conjunct2, THEN conjunct2, THEN conjunct1, THEN mp, OF h4]
    d [THEN conjunct2, THEN conjunct2, THEN conjunct2, THEN conjunct2, THEN mp, OF h5]
  show ?thesis
    by blast
qed

section \<open>Unsupported calls and the feature query\<close>

text \<open>
  Claim C8, as stated, has \<open>FFA_MEM_FRAG_TX\<close> among the calls rejected as not supported.
  It is not a case of \<^verbatim>\<open>ffa_call_unsupported\<close>: the dispatcher passes the call on, and so
  does the feature query about it.
\<close>

theorem frag_tx_counterexample:
  "is_ffa_call arm64_consts (FFA_MEM_FRAG_TX arm64_consts) \<and>
   kvm_host_ffa_handler arm64_consts ex_res (ex_ctxt [0x8400007B, 0, 0, 0])
     (ex_state (ex_own []) (ex_reply 0x84000061 0 0)) = None \<and>
   do_ffa_features arm64_consts (ex_ctxt [0x84000064, 0x8400007B]) = None \<and>
   kvm_host_ffa_handler arm64_consts ex_res (ex_ctxt [0x84000064, 0x8400007B])
     (ex_state (ex_own []) (ex_reply 0x84000061 0 0)) = None"
  by (simp add: kvm_host_ffa_handler_def do_ffa_features_def is_ffa_call_def
      ffa_call_unsupported_def Let_def ex_ctxt_def cpu_reg_def arm64_consts_def)

text \<open>
  Claim C8, amended. Every function identifier enumerated by \<^verbatim>\<open>ffa_call_unsupported\<close>
  (\<open>FFA_MEM_FRAG_RX\<close> among them, \<open>FFA_MEM_FRAG_TX\<close> not) is answered with
  \<open>FFA_RET_NOT_SUPPORTED\<close> by the dispatcher, which touches nothing but the four result
  registers, and by the feature query, called directly or through the dispatcher.
\<close>

theorem unsupported_calls_rejected:
  assumes "unsupported_ids_ok K"
    and "ffa_call_unsupported K func_id"
  shows "(cpu_reg ctxt 0 = func_id \<longrightarrow>
            kvm_host_ffa_handler K res ctxt s =
              Some (ffa_set_retval ctxt (ffa_error K (FFA_RET_NOT_SUPPORTED K)), s)) \<and>
         (ucast (features_id ctxt) = func_id \<longrightarrow>
            do_ffa_features K ctxt = Some (ffa_error K (FFA_RET_NOT_SUPPORTED K))) \<and>
         (cpu_reg ctxt 0 = FFA_FEATURES K \<and> ucast (features_id ctxt) = func_id \<longrightarrow>
            kvm_host_ffa_handler K res ctxt s =
              Some (ffa_set_retval ctxt (ffa_error K (FFA_RET_NOT_SUPPORTED K)), s))"
proof -
  from assms have ne: "FFA_RET_NOT_SUPPORTED K \<noteq> FFA_RET_SUCCESS K"
    and feat: "is_ffa_call K (FFA_FEATURES K)"
    and call: "is_ffa_call K func_id"
    and nd: "func_id \<notin> set (dispatched_ids K)"
    by (auto simp: unsupported_ids_ok_def ffa_call_unsupported_iff list_all_iff)
  from nd have nd':
    "func_id \<noteq> FFA_FEATURES K" "func_id \<noteq> FFA_FN64_RXTX_MAP K" "func_id \<noteq> FFA_RXTX_UNMAP K"
    "func_id \<noteq> FFA_MEM_SHARE K" "func_id \<noteq> FFA_FN64_MEM_SHARE K" "func_id \<noteq> FFA_MEM_RECLAIM K"
    "func_id \<noteq> FFA_MEM_LEND K" "func_id \<noteq> FFA_FN64_MEM_LEND K"
    by (simp_all add: dispatched_ids_def)
  have a: "cpu_reg ctxt 0 = func_id \<longrightarrow>
            kvm_host_ffa_handler K res ctxt s =
              Some (ffa_set_retval ctxt (ffa_error K (FFA_RET_NOT_SUPPORTED K)), s)"
    using call nd' assms(2)
    by (simp add: kvm_host_ffa_handler_def Let_def ffa_error_def)
  have b: "ucast (features_id ctxt) = func_id \<longrightarrow>
            do_ffa_features K ctxt = Some (ffa_error K (FFA_RET_NOT_SUPPORTED K))"
    using do_ffa_features_unsupported [OF ne] assms(2) by auto
  have c: "cpu_reg ctxt 0 = FFA_FEATURES K \<and> ucast (features_id ctxt) = func_id \<longrightarrow>
            kvm_host_ffa_handler K res ctxt s =
              Some (ffa_set_retval ctxt (ffa_error K (FFA_RET_NOT_SUPPORTED K)), s)"
    using feat b by (simp add: kvm_host_ffa_handler_def Let_def)
  from a b c show ?thesis by blast
qed

text \<open>\<open>FFA_MEM_FRAG_RX\<close> as a call and as the subject of a feature query.\<close>

theorem unsupported_calls_rejected_witness:
  "kvm_host_ffa_handler arm64_consts ex_res (ex_ctxt [0x8400007A, 0, 0, 0])
     (ex_state (ex_own []) (ex_reply 0x84000061 0 0)) =
     Some (ffa_set_retval (ex_ctxt [0x8400007A, 0, 0, 0])
             (ffa_error arm64_consts (FFA_RET_NOT_SUPPORTED arm64_consts)),
           ex_state (ex_own []) (ex_reply 0x84000061 0 0)) \<and>
   do_ffa_features arm64_consts (ex_ctxt [0x84000064, 0x8400007A]) =
     Some (ffa_error arm64_consts (FFA_RET_NOT_SUPPORTED arm64_consts)) \<and>
   kvm_host_ffa_handler arm64_consts ex_res (ex_ctxt [0x84000064, 0x8400007A])
     (ex_state (ex_own []) (ex_reply 0x84000061 0 0)) =
     Some (ffa_set_retval (ex_ctxt [0x84000064, 0x8400007A])
             (ffa_error arm64_consts (FFA_RET_NOT_SUPPORTED arm64_consts)),
           ex_state (ex_own []) (ex_reply 0x84000061 0 0))"
proof -
  let ?C = "ex_ctxt [0x8400007A, 0, 0, 0]"
  let ?F = "ex_ctxt [0x84000064, 0x8400007A]"
  let ?S = "ex_state (ex_own []) (ex_reply 0x84000061 0 0)"
  have u: "ffa_call_unsupported arm64_consts 0x8400007A"
    by (simp add: ffa_call_unsupported_def arm64_consts_def)
  have h1: "cpu_reg ?C 0 = 0x8400007A"
    by (simp add: ex_ctxt_def cpu_reg_def)
  have h2: "ucast (features_id ?F) = (0x8400007A :: u64)"
    by (simp add: features_id_def ex_ctxt_def cpu_reg_def)
  have h3: "cpu_reg ?F 0 = FFA_FEATURES arm64_consts \<and> ucast (features_id ?F) = (0x8400007A :: u64)"
    by (simp add: features_id_def ex_ctxt_def cpu_reg_def arm64_consts_def)
  note a = unsupported_calls_rejected [OF arm64_unsupported_ids_ok u, of ?C ex_res ?S]
  note b = unsupported_calls_rejected [OF arm64_unsupported_ids_ok u, of ?F ex_res ?S]
  from a [THEN conjunct1, THEN mp, OF h1]
    b [THEN conjunct2, THEN conjunct1, THEN mp, OF h2]
    b [THEN conjunct2, THEN conjunct2, THEN mp, OF h3]
  show ?thesis
    by (intro conjI)
qed



section \<open>Share and lend without mailboxes\<close>

text \<open>
  Claim C10, as stated, has every share or lend request made while \<^verbatim>\<open>host_kvm.ffa.tx\<close> is
  \<^verbatim>\<open>NULL\<close> answered with \<open>FFA_RET_INVALID_PARAMETERS\<close>. The source tests the fragment
  length before it looks at the mapping: with no mailbox mapped, a share request with
  total length 200, fragment length 96 and reserved registers 0 is answered with
  \<open>FFA_RET_ABORTED\<close>.
\<close>

theorem xfer_without_mapping_counterexample:
  "host_kvm_ffa_tx (ex_unmapped (ex_own []) (ex_reply 0x84000061 0 0x1234)) = 0 \<and>
   fst (do_ffa_mem_xfer arm64_consts (FFA_FN64_MEM_SHARE arm64_consts) ex_res
          (ex_ctxt [0xC4000073, 200, 96, 0, 0])
          (ex_unmapped (ex_own []) (ex_reply 0x84000061 0 0x1234))) =
     ffa_error arm64_consts (FFA_RET_ABORTED arm64_consts) \<and>
   ffa_error arm64_consts (FFA_RET_ABORTED arm64_consts) \<noteq>
     ffa_error arm64_consts (FFA_RET_INVALID_PARAMETERS arm64_consts)"
  by (simp add: do_ffa_mem_xfer_def Let_def ex_ctxt_def cpu_reg_def ffa_error_def
      ex_unmapped_def ex_state_def ffa_to_smccc_res_def ffa_to_smccc_res_prop_def
      ffa_to_smccc_error_def arm64_consts_def)

text \<open>
  Claim C10, amended. While \<^verbatim>\<open>host_kvm.ffa.tx\<close> is \<^verbatim>\<open>NULL\<close>, a share or lend request leaves
  the state untouched (no call to the ownership table or to the downstream authority is
  made), and unless it declares a fragment shorter than its total length it is answered
  with \<open>FFA_RET_INVALID_PARAMETERS\<close>.
\<close>

theorem xfer_without_mapping:
  assumes "ffa_ret_codes_ok K"
    and "host_kvm_ffa_tx s = 0"
  shows "snd (do_ffa_mem_xfer K func_id res ctxt s) = s \<and>
         (\<not> xfer_fraglen ctxt < xfer_len ctxt \<longrightarrow>
            fst (do_ffa_mem_xfer K func_id res ctxt s) =
              ffa_error K (FFA_RET_INVALID_PARAMETERS K))"
  using assms(2) ffa_ret_codes_okD [OF assms(1)]
  by (auto simp: do_ffa_mem_xfer_def Let_def ffa_to_smccc_res_error
      xfer_fraglen_def xfer_len_def)

text \<open>A well-formed lend of the two example ranges with no mailbox mapped.\<close>

theorem xfer_without_mapping_witness:
  "snd (do_ffa_mem_xfer arm64_consts (FFA_FN64_MEM_LEND arm64_consts) ex_res
          (ex_ctxt [0xC4000072, 96, 96, 0, 0])
          (ex_unmapped (ex_own []) (ex_reply 0x84000061 0 0x1234))) =
     ex_unmapped (ex_own []) (ex_reply 0x84000061 0 0x1234) \<and>
   fst (do_ffa_mem_xfer arm64_consts (FFA_FN64_MEM_LEND arm64_consts) ex_res
          (ex_ctxt [0xC4000072, 96, 96, 0, 0])
          (ex_unmapped (ex_own []) (ex_reply 0x84000061 0 0x1234))) =
     ffa_error arm64_consts (FFA_RET_INVALID_PARAMETERS arm64_consts)"
proof -
  let ?C = "ex_ctxt [0xC4000072, 96, 96, 0, 0]"
  let ?S = "ex_unmapped (ex_own []) (ex_reply 0x84000061 0 0x1234)"
  have h: "host_kvm_ffa_tx ?S = 0"
    by (simp add: ex_unmapped_def)
  have r: "\<not> xfer_fraglen ?C < xfer_len ?C"
    by (simp add: xfer_fraglen_def xfer_len_def ex_ctxt_def cpu_reg_def)
  note t = xfer_without_mapping [OF arm64_ret_codes_ok h,
      of "FFA_FN64_MEM_LEND arm64_consts" ex_res ?C]
  from t [THEN conjunct1] t [THEN conjunct2, THEN mp, OF r] show ?thesis
    by (intro conjI)
qed

end
